theory Spec2Isabelle
  imports Main
begin

section \<open>Strings and paths\<close>

text \<open>
  Python strings are rendered as \<open>string\<close>.  The three string tests the script uses are
  \<^verbatim>\<open>s.startswith(p)\<close>, \<^verbatim>\<open>v in s\<close> (substring) and \<^verbatim>\<open>s.endswith(e)\<close>.
\<close>

type_synonym path = string

fun startswith :: "string \<Rightarrow> string \<Rightarrow> bool" where
  "startswith s [] = True"
| "startswith [] (c # p) = False"
| "startswith (d # s) (c # p) = (d = c \<and> startswith s p)"

fun contains :: "string \<Rightarrow> string \<Rightarrow> bool" where
  "contains [] v = (v = [])"
| "contains (c # s) v = (startswith (c # s) v \<or> contains s v)"

definition endswith :: "string \<Rightarrow> string \<Rightarrow> bool" where
  "endswith s e = startswith (rev s) (rev e)"

text \<open>\<^verbatim>\<open>str(n)\<close> for a natural number, used by the diagnostics that print a count.\<close>

definition digit :: "nat \<Rightarrow> char" where
  "digit d = char_of (48 + d)"

fun str_nat :: "nat \<Rightarrow> string" where
  "str_nat n = (if n < 10 then [digit n] else str_nat (n div 10) @ [digit (n mod 10)])"

declare str_nat.simps [simp del]

text \<open>
  Paths follow the POSIX flavour of \<^verbatim>\<open>os.path\<close>: \<open>sep_dir d\<close> is the directory \<open>d\<close> ready
  to take a component, \<^verbatim>\<open>os.path.join(a, b)\<close> discards \<open>a\<close> when \<open>b\<close> is absolute,
  \<^verbatim>\<open>os.path.basename\<close> is what follows the last separator, and \<^verbatim>\<open>os.path.dirname\<close> is
  what precedes it, without trailing separators unless it consists of separators only.

  \<^verbatim>\<open>path_join\<close> lives in \<^verbatim>\<open>utilities/files.py\<close>, which is not among the sources; it is
  taken to join two components exactly like \<^verbatim>\<open>os.path.join\<close>.
\<close>

definition sep_dir :: "path \<Rightarrow> path" where
  "sep_dir d = (if d = [] \<or> last d = CHR ''/'' then d else d @ ''/'')"

definition os_path_join :: "path \<Rightarrow> string \<Rightarrow> path" where
  "os_path_join a b = (if startswith b ''/'' then b else sep_dir a @ b)"

definition path_join :: "path \<Rightarrow> string \<Rightarrow> path" where
  "path_join a b = os_path_join a b"

definition basename :: "path \<Rightarrow> string" where
  "basename p = rev (takeWhile (\<lambda>c. c \<noteq> CHR ''/'') (rev p))"

definition dirname :: "path \<Rightarrow> path" where
  "dirname p =
     (let head = rev (dropWhile (\<lambda>c. c \<noteq> CHR ''/'') (rev p))
      in if list_all (\<lambda>c. c = CHR ''/'') head then head
         else rev (dropWhile (\<lambda>c. c = CHR ''/'') (rev head)))"

text \<open>
  \<^verbatim>\<open>fnmatch\<close> for the patterns the script uses: \<open>*\<close> matches any run of characters,
  \<open>?\<close> one character, everything else itself (no pattern of the script has a bracket).
\<close>

fun fnmatch :: "string \<Rightarrow> string \<Rightarrow> bool" where
  "fnmatch [] n = (n = [])"
| "fnmatch (p # ps) [] = (p = CHR ''*'' \<and> fnmatch ps [])"
| "fnmatch (p # ps) (c # n) =
     (if p = CHR ''*'' then fnmatch ps (c # n) \<or> fnmatch (p # ps) n
      else if p = CHR ''?'' then fnmatch ps n
      else p = c \<and> fnmatch ps n)"

definition is_hidden :: "string \<Rightarrow> bool" where
  "is_hidden n = startswith n ''.''"

section \<open>The file system\<close>

text \<open>
  A file has its bytes and its modification time.  The file system is the list of the
  regular files with their full paths; a directory exists through the files below it, so
  \<^verbatim>\<open>os.makedirs(..., exist_ok=True)\<close> and \<^verbatim>\<open>os.chdir\<close> into a directory the script has just
  made change nothing here.  \<^verbatim>\<open>os.path.exists\<close> is \<open>isfile\<close> where the script asks for an
  artifact and \<open>path_exists\<close> where it asks for a directory.
\<close>

record file_data =
  bytes :: string
  mtime :: nat

type_synonym fs = "(path \<times> file_data) list"

definition lookup :: "fs \<Rightarrow> path \<Rightarrow> file_data option" where
  "lookup f p = map_of f p"

definition isfile :: "fs \<Rightarrow> path \<Rightarrow> bool" where
  "isfile f p = (lookup f p \<noteq> None)"

definition below :: "path \<Rightarrow> path \<Rightarrow> bool" where
  "below p q = (q = p \<or> startswith q (p @ ''/''))"

definition path_exists :: "fs \<Rightarrow> path \<Rightarrow> bool" where
  "path_exists f p = list_ex (\<lambda>e. below p (fst e)) f"

definition remove_file :: "path \<Rightarrow> fs \<Rightarrow> fs" where
  "remove_file p f = filter (\<lambda>e. fst e \<noteq> p) f"

definition write_file :: "path \<Rightarrow> file_data \<Rightarrow> fs \<Rightarrow> fs" where
  "write_file p x f = (p, x) # remove_file p f"

text \<open>
  Modelled from the spec: \<^verbatim>\<open>force_delete\<close> (\<^verbatim>\<open>utilities/files.py\<close>, not among the sources)
  is the primitive "recursive delete" of the spec's file-system operations: the path and
  everything below it go, and a path that does not exist is no error.
\<close>

definition force_delete :: "path \<Rightarrow> fs \<Rightarrow> fs" where
  "force_delete p f = filter (\<lambda>e. \<not> below p (fst e)) f"

text \<open>
  \<^verbatim>\<open>os.listdir\<close> and \<^verbatim>\<open>glob.glob\<close> on a pattern whose directory part is literal and whose
  last component carries the wildcard, as at every call of the script: the entries of the
  directory are the first components of the paths below it, a name starting with a dot is
  matched only by a pattern starting with a dot, and each match is returned joined to the
  directory.
\<close>

definition entry_of :: "path \<Rightarrow> path \<Rightarrow> string" where
  "entry_of d q = takeWhile (\<lambda>c. c \<noteq> CHR ''/'') (drop (length (sep_dir d)) q)"

definition listdir :: "fs \<Rightarrow> path \<Rightarrow> string list" where
  "listdir f d =
     remdups (filter (\<lambda>n. n \<noteq> [])
       (map (entry_of d) (filter (\<lambda>q. startswith q (sep_dir d)) (map fst f))))"

definition glob_glob :: "fs \<Rightarrow> string \<Rightarrow> path list" where
  "glob_glob f pathname =
     (let d = dirname pathname; pat = basename pathname
      in map (os_path_join d)
           (filter (\<lambda>n. fnmatch pat n \<and> (is_hidden n \<longrightarrow> is_hidden pat)) (listdir f d)))"

text \<open>
  Modelled from the spec: \<^verbatim>\<open>force_delete_glob\<close> (\<^verbatim>\<open>utilities/files.py\<close>, not among the
  sources) combines the spec's primitives "glob-pattern matching" and "recursive delete".
\<close>

definition force_delete_glob :: "path \<Rightarrow> string \<Rightarrow> fs \<Rightarrow> fs" where
  "force_delete_glob d pat f = foldl (\<lambda>g p. force_delete p g) f (glob_glob f (path_join d pat))"

subsection \<open>The calls that replace a published file\<close>

text \<open>
  The replace step of every format is a short sequence of file-system calls.  They are
  kept as data so that a run cut short after any number of calls can be written down:
  \<^verbatim>\<open>os.remove\<close>, \<^verbatim>\<open>os.rename\<close> (which carries the file with its modification time and
  replaces an existing target) and \<^verbatim>\<open>shutil.copy\<close> onto a file path (which writes the bytes
  under a fresh modification time).
\<close>

datatype exn = SystemExit nat | TypeError | KeyError | FileNotFoundError | FileExistsError

datatype fs_op = Op_remove path | Op_rename path path | Op_copy path path nat

fun exec_op :: "fs_op \<Rightarrow> fs \<Rightarrow> exn + fs" where
  "exec_op (Op_remove p) f = (if isfile f p then Inr (remove_file p f) else Inl FileNotFoundError)"
| "exec_op (Op_rename a b) f =
     (case lookup f a of
        None \<Rightarrow> Inl FileNotFoundError
      | Some x \<Rightarrow> Inr (write_file b x (remove_file a f)))"
| "exec_op (Op_copy a b t) f =
     (case lookup f a of
        None \<Rightarrow> Inl FileNotFoundError
      | Some x \<Rightarrow> Inr (write_file b \<lparr>bytes = bytes x, mtime = t\<rparr> f))"

fun run_ops :: "fs_op list \<Rightarrow> fs \<Rightarrow> exn option \<times> fs" where
  "run_ops [] f = (None, f)"
| "run_ops (a # ops) f =
     (case exec_op a f of Inl e \<Rightarrow> (Some e, f) | Inr g \<Rightarrow> run_ops ops g)"

definition interrupted :: "nat \<Rightarrow> fs_op list \<Rightarrow> fs \<Rightarrow> fs" where
  "interrupted k ops f = snd (run_ops (take k ops) f)"

section \<open>Process state, exceptions and the host\<close>

text \<open>
  The state of a run: the file system, the working directory, the lines printed so far
  and a clock that stamps the files the script itself writes.  A computation returns a
  value or an exception (\<^verbatim>\<open>sys.exit(1)\<close> is \<open>SystemExit 1\<close>) together with the state it
  leaves.
\<close>

record state =
  st_fs :: fs
  st_cwd :: path
  st_out :: "string list"
  st_now :: nat

type_synonym 'a run = "state \<Rightarrow> (exn + 'a) \<times> state"

definition ret :: "'a \<Rightarrow> 'a run" where
  "ret x s = (Inr x, s)"

definition throw :: "exn \<Rightarrow> 'a run" where
  "throw e s = (Inl e, s)"

definition bindM :: "'a run \<Rightarrow> ('a \<Rightarrow> 'b run) \<Rightarrow> 'b run" where
  "bindM m k s = (case m s of (Inl e, s') \<Rightarrow> (Inl e, s') | (Inr x, s') \<Rightarrow> k x s')"

definition print :: "string \<Rightarrow> state \<Rightarrow> state" where
  "print line s = s\<lparr>st_out := st_out s @ [line]\<rparr>"

definition sys_exit :: "string \<Rightarrow> 'a run" where
  "sys_exit line s = (Inl (SystemExit 1), print line s)"

definition os_makedirs :: "path \<Rightarrow> unit run" where
  "os_makedirs p s = (if path_exists (st_fs s) p then (Inl FileExistsError, s) else (Inr (), s))"

text \<open>
  The result dictionaries of the packaging functions: keys are strings, values booleans
  or strings.  \<^verbatim>\<open>d.update(r)\<close> is \<open>d ++ r\<close>, \<^verbatim>\<open>d.get(k, default)\<close> is \<open>dict_get\<close>,
  \<^verbatim>\<open>d[k]\<close> raises \<open>KeyError\<close> on a missing key, and \<^verbatim>\<open>d.update(None)\<close> raises
  \<open>TypeError\<close>.
\<close>

datatype pyval = PyBool bool | PyStr string

type_synonym dict = "string \<rightharpoonup> pyval"

definition truthy :: "pyval \<Rightarrow> bool" where
  "truthy v = (case v of PyBool b \<Rightarrow> b | PyStr t \<Rightarrow> t \<noteq> [])"

definition str_of :: "pyval \<Rightarrow> string" where
  "str_of v = (case v of PyBool b \<Rightarrow> (if b then ''True'' else ''False'') | PyStr t \<Rightarrow> t)"

definition dict_get :: "dict \<Rightarrow> string \<Rightarrow> pyval \<Rightarrow> pyval" where
  "dict_get d k dflt = (case d k of None \<Rightarrow> dflt | Some v \<Rightarrow> v)"

definition dict_item :: "dict \<Rightarrow> string \<Rightarrow> pyval run" where
  "dict_item d k = (case d k of None \<Rightarrow> throw KeyError | Some v \<Rightarrow> ret v)"

definition dict_update :: "dict \<Rightarrow> dict option \<Rightarrow> dict run" where
  "dict_update d r = (case r of None \<Rightarrow> throw TypeError | Some e \<Rightarrow> ret (d ++ e))"

text \<open>
  The host: what \<^verbatim>\<open>utilities/common.py\<close> and \<^verbatim>\<open>utilities/files.py\<close> probe and do, and the
  external tools.  None of it is among the sources, so every theorem holds for any host.
  A tool gets its arguments, the working directory and the file system, and gives the new
  file system, or \<open>None\<close> when \<^verbatim>\<open>subprocess.CalledProcessError\<close> is raised.  The four
  comparisons read the bytes of the two files.
\<close>

record host =
  is_ubuntu :: bool
  is_debian_based :: bool
  is_redhat_based :: bool
  is_rpmbuild_installed :: bool
  is_cmake_installed :: bool
  is_dotnet_installed :: bool
  is_wix_installed :: bool
  subprocess_run :: "string list \<Rightarrow> path \<Rightarrow> fs \<Rightarrow> fs option"
  os_system :: "string \<Rightarrow> path \<Rightarrow> fs \<Rightarrow> fs"
  create_rtf_from_txt :: "path \<Rightarrow> path \<Rightarrow> fs \<Rightarrow> fs"
  create_zip_file :: "path \<Rightarrow> path \<Rightarrow> fs \<Rightarrow> fs option"
  compare_zip_files :: "string \<Rightarrow> string \<Rightarrow> bool"
  compare_msi_files :: "string \<Rightarrow> string \<Rightarrow> bool"
  compare_deb_files :: "string \<Rightarrow> string \<Rightarrow> bool"
  compare_tar_gz_files :: "string \<Rightarrow> string \<Rightarrow> bool"
  verify_git_repo :: path
  create_temp_dir :: "path \<Rightarrow> fs \<Rightarrow> path \<times> fs"
  are_generated_files_git_changed :: "path \<Rightarrow> fs \<Rightarrow> bool"
  get_src_generated_files :: "string list"
  copy_file_list :: "path \<Rightarrow> path \<Rightarrow> string list \<Rightarrow> fs \<Rightarrow> fs"
  compare_dir :: "path \<Rightarrow> path \<Rightarrow> fs \<Rightarrow> bool"
  run_command_sudo :: "string list \<Rightarrow> string \<Rightarrow> path \<Rightarrow> fs \<Rightarrow> fs option"

definition compare_files :: "(string \<Rightarrow> string \<Rightarrow> bool) \<Rightarrow> path \<Rightarrow> path \<Rightarrow> bool run" where
  "compare_files cmp a b s =
     (case (lookup (st_fs s) a, lookup (st_fs s) b) of
        (Some x, Some y) \<Rightarrow> (Inr (cmp (bytes x) (bytes y)), s)
      | _ \<Rightarrow> (Inl FileNotFoundError, s))"

definition run_tool :: "host \<Rightarrow> string list \<Rightarrow> state \<Rightarrow> state option" where
  "run_tool h cmd s = map_option (\<lambda>f. s\<lparr>st_fs := f\<rparr>) (subprocess_run h cmd (st_cwd s) (st_fs s))"

definition apply_ops :: "fs_op list \<Rightarrow> unit run" where
  "apply_ops ops s =
     (case run_ops ops (st_fs s) of
        (Some e, f) \<Rightarrow> (Inl e, s\<lparr>st_fs := f\<rparr>)
      | (None, f) \<Rightarrow> (Inr (), s\<lparr>st_fs := f\<rparr>))"


section \<open>The packaging script\<close>

text \<open>
  Each function of \<^verbatim>\<open>scripts/package.py\<close> follows, under its own name.  The long packaging
  functions are cut at the comment lines of the source into their cleanup, build and
  publish parts; the function itself is the parts in sequence.  A diagnostic that
  interpolates an exception prints the text before the exception only.
\<close>

definition delete_other_versions :: "path \<Rightarrow> string \<Rightarrow> string \<Rightarrow> fs \<Rightarrow> fs" where
  "delete_other_versions target_dir file_pattern new_version f =
     (let glob_all_packages = path_join target_dir file_pattern
      in foldl (\<lambda>g file. if \<not> contains file new_version then force_delete file g else g)
           f (glob_glob f glob_all_packages))"

fun split_words :: "string \<Rightarrow> string \<Rightarrow> string list" where
  "split_words [] w = (if w = [] then [] else [rev w])"
| "split_words (c # cs) w =
     (if c = CHR '' '' then (if w = [] then split_words cs [] else rev w # split_words cs [])
      else split_words cs (c # w))"

definition shlex_split :: "string \<Rightarrow> string list" where
  "shlex_split t = split_words t []"

fun join_sp :: "string list \<Rightarrow> string" where
  "join_sp [] = []"
| "join_sp [x] = x"
| "join_sp (x # y # ys) = x @ '' '' @ join_sp (y # ys)"

definition finally_chdir :: "path \<Rightarrow> 'a run \<Rightarrow> 'a run" where
  "finally_chdir d m s = (case m s of (r, s') \<Rightarrow> (r, s'\<lparr>st_cwd := d\<rparr>))"

definition do_cmake_reconfigure :: "host \<Rightarrow> path \<Rightarrow> string \<Rightarrow> path run" where
  "do_cmake_reconfigure h root_dir options s0 =
     (let build_dir = path_join root_dir ''build'';
          s1 = (if path_exists (st_fs s0) build_dir
                then s0\<lparr>st_fs := force_delete build_dir (st_fs s0)\<rparr> else s0)
      in if \<not> is_cmake_installed h
         then sys_exit ''Error: CMake not found. You need to install it and be accessible with PATH.'' s1
         else
           let cmake_lists = path_join root_dir ''CMakeLists.txt''
           in if \<not> isfile (st_fs s1) cmake_lists
              then sys_exit (''Error: '' @ cmake_lists
                     @ '' not found. Your working directory must be within a cloned TA-Lib repos'') s1
              else
                let original_dir = st_cwd s1
                in finally_chdir original_dir
                     (bindM (os_makedirs build_dir) (\<lambda>_ s2.
                        let s3 = s2\<lparr>st_cwd := build_dir\<rparr>;
                            cmake_command = [''cmake''] @ shlex_split options @ [''..''];
                            formatted_command = join_sp (map (\<lambda>elem. ''['' @ elem @ '']'') cmake_command);
                            s4 = print (''CMake command: '' @ formatted_command) s3
                        in case run_tool h cmake_command s4 of
                             None \<Rightarrow> sys_exit (''Error: Running CMake configuration '' @ options @ '': '') s4
                           | Some s5 \<Rightarrow> (Inr build_dir, s5))) s1)"

definition do_cmake_build :: "host \<Rightarrow> path \<Rightarrow> unit run" where
  "do_cmake_build h build_dir s0 =
     (let original_dir = st_cwd s0
      in finally_chdir original_dir
           (\<lambda>s. let s1 = s\<lparr>st_cwd := build_dir\<rparr>
                in case run_tool h [''cmake'', ''--build'', ''.''] s1 of
                     None \<Rightarrow> sys_exit ''Error running cmake build: '' s1
                   | Some s2 \<Rightarrow> (Inr (), s2)) s0)"

definition do_cpack_build :: "host \<Rightarrow> path \<Rightarrow> unit run" where
  "do_cpack_build h build_dir s0 =
     (let original_dir = st_cwd s0
      in finally_chdir original_dir
           (\<lambda>s. let s1 = s\<lparr>st_cwd := build_dir\<rparr>
                in case run_tool h [''cpack'', ''.''] s1 of
                     None \<Rightarrow> sys_exit ''Error running CPack: '' s1
                   | Some s2 \<Rightarrow> (Inr (), s2)) s0)"

definition find_asset_with_ext :: "path \<Rightarrow> string \<Rightarrow> string \<Rightarrow> string run" where
  "find_asset_with_ext target_dir version extension s =
     (let glob_deb = path_join target_dir (''*.'' @ extension);
          files = glob_glob (st_fs s) glob_deb
      in if length files \<noteq> 1
         then sys_exit (''Error: Expected one .'' @ extension @ '' file, found '' @ str_nat (length files)) s
         else
           let filepath = hd files
           in if \<not> contains filepath version
              then sys_exit (''Error: Expected version '' @ version @ '' not found in '' @ filepath) s
              else (Inr (basename filepath), s))"

subsection \<open>The Windows zip\<close>

definition zip_asset_file_name :: "string \<Rightarrow> string" where
  "zip_asset_file_name version = ''ta-lib-'' @ version @ ''-win64.zip''"

text \<open>Lines 148 to 155: the clean-up of \<^verbatim>\<open>dist\<close> and \<^verbatim>\<open>temp\<close>.\<close>

definition zip_cleanup :: "path \<Rightarrow> string \<Rightarrow> fs \<Rightarrow> fs" where
  "zip_cleanup root_dir version f =
     (let dist_dir = path_join root_dir ''dist'';
          f1 = delete_other_versions dist_dir ''ta-lib-*.zip'' version f;
          temp_dir = path_join root_dir ''temp'';
          f2 = delete_other_versions temp_dir ''ta-lib-*.zip'' version f1
      in force_delete_glob temp_dir ''ta-lib-*'' f2)"

text \<open>
  \<^verbatim>\<open>shutil.copy(src, dir)\<close> into a directory, with a relative source taken from the working
  directory, and \<^verbatim>\<open>shutil.copy(src, dst)\<close> onto a file path.
\<close>

definition copy_into :: "path \<Rightarrow> path \<Rightarrow> unit run" where
  "copy_into src dir s =
     (case apply_ops [Op_copy (os_path_join (st_cwd s) src)
                        (os_path_join dir (basename src)) (st_now s)] s of
        (r, s') \<Rightarrow> (r, s'\<lparr>st_now := Suc (st_now s')\<rparr>))"

fun copy_all :: "path list \<Rightarrow> path \<Rightarrow> unit run" where
  "copy_all [] dir = ret ()"
| "copy_all (x # xs) dir = bindM (copy_into x dir) (\<lambda>_. copy_all xs dir)"

definition write_text :: "path \<Rightarrow> string \<Rightarrow> unit run" where
  "write_text p t s =
     (Inr (), s\<lparr>st_fs := write_file p \<lparr>bytes = t, mtime = st_now s\<rparr> (st_fs s),
                st_now := Suc (st_now s)\<rparr>)"

text \<open>
  Lines 157 to 189: the build and the staging of the package tree.  The handler of
  \<^verbatim>\<open>subprocess.CalledProcessError\<close> around the copies catches nothing the copies raise, so
  a missing library leaves the function as \<open>FileNotFoundError\<close>, after the working
  directory is restored.
\<close>

definition zip_stage :: "host \<Rightarrow> path \<Rightarrow> string \<Rightarrow> unit run" where
  "zip_stage h root_dir version =
     (let temp_dir = path_join root_dir ''temp''
      in bindM (do_cmake_reconfigure h root_dir ''-G Ninja -DBUILD_DEV_TOOLS=OFF'') (\<lambda>build_dir.
         bindM (do_cmake_build h build_dir) (\<lambda>_ s.
           let package_temp_dir = path_join temp_dir (''ta-lib-'' @ version @ ''-win64'');
               temp_lib_dir = path_join package_temp_dir ''lib'';
               temp_include_dir = path_join package_temp_dir ''include'';
               original_dir = st_cwd s;
               include_rootdir = path_join root_dir ''include''
           in finally_chdir original_dir
                (\<lambda>s1. (bindM (copy_into ''ta-lib.dll'' temp_lib_dir) (\<lambda>_.
                        bindM (copy_into ''ta-lib.lib'' temp_lib_dir) (\<lambda>_.
                        bindM (copy_into ''ta-lib-static.lib'' temp_lib_dir) (\<lambda>_ s2.
                        bindM (copy_all (glob_glob (st_fs s2) (path_join include_rootdir ''*.h''))
                                 temp_include_dir) (\<lambda>_.
                        write_text (path_join package_temp_dir ''VERSION.txt'') version) s2))))
                       (s1\<lparr>st_cwd := build_dir\<rparr>)) s)))"

text \<open>Lines 201 to 214: the zip is copied into \<^verbatim>\<open>dist\<close> only if its content differs.\<close>

definition zip_replace_ops :: "path \<Rightarrow> path \<Rightarrow> nat \<Rightarrow> fs_op list" where
  "zip_replace_ops package_temp_file dist_file t = [Op_copy package_temp_file dist_file t]"

definition zip_publish :: "host \<Rightarrow> path \<Rightarrow> string \<Rightarrow> dict \<Rightarrow> dict run" where
  "zip_publish h root_dir version result s =
     (let asset_file_name = zip_asset_file_name version;
          package_temp_file = path_join (path_join root_dir ''temp'') asset_file_name;
          dist_dir = path_join root_dir ''dist'';
          dist_file = path_join dist_dir asset_file_name;
          package_existed = isfile (st_fs s) dist_file
      in bindM (if \<not> package_existed then ret True
                else bindM (compare_files (compare_zip_files h) package_temp_file dist_file)
                       (\<lambda>same. ret (\<not> same)))
           (\<lambda>differs.
              bindM (if differs
                     then (\<lambda>s1. case apply_ops (zip_replace_ops package_temp_file dist_file (st_now s1)) s1 of
                                  (r, s2) \<Rightarrow> (r, s2\<lparr>st_now := Suc (st_now s2)\<rparr>))
                     else ret ())
                (\<lambda>_. ret (result(''success'' \<mapsto> PyBool True,
                                  ''existed'' \<mapsto> PyBool package_existed,
                                  ''copied'' \<mapsto> PyBool differs)))) s)"

definition package_windows_zip :: "host \<Rightarrow> path \<Rightarrow> string \<Rightarrow> dict option run" where
  "package_windows_zip h root_dir version s0 =
     (let result = [''success'' \<mapsto> PyBool False];
          asset_file_name = zip_asset_file_name version;
          result = result(''asset_file_name'' \<mapsto> PyStr asset_file_name);
          temp_dir = path_join root_dir ''temp'';
          package_temp_dir = path_join temp_dir (''ta-lib-'' @ version @ ''-win64'');
          package_temp_file = path_join temp_dir asset_file_name
      in bindM (zip_stage h root_dir version) (\<lambda>_ s.
           case create_zip_file h package_temp_dir package_temp_file (st_fs s) of
             None \<Rightarrow> (Inr None, print ''Error creating zip file: '' s)
           | Some f \<Rightarrow> bindM (zip_publish h root_dir version result) (\<lambda>r. ret (Some r))
                        (s\<lparr>st_fs := f\<rparr>))
           (s0\<lparr>st_fs := zip_cleanup root_dir version (st_fs s0)\<rparr>))"

subsection \<open>The Windows installer\<close>

text \<open>
  Lines 217 to 234 build the installer; \<open>Inl\<close> is an early \<^verbatim>\<open>return result\<close>, \<open>Inr\<close>
  the build directory, in which line 236 finds the asset and lines 239 to 254 publish it.
\<close>

definition msi_build :: "host \<Rightarrow> path \<Rightarrow> (dict + path) run" where
  "msi_build h root_dir s0 =
     (let result = [''success'' \<mapsto> PyBool False];
          license_rtf = path_join root_dir ''LICENSE.rtf'';
          license_txt = path_join root_dir ''LICENSE'';
          s1 = s0\<lparr>st_fs := create_rtf_from_txt h license_txt license_rtf (st_fs s0)\<rparr>
      in if \<not> is_dotnet_installed h
         then (Inr (Inl result),
               print ''Error: .NET Framework not found. It is required to build the MSI.'' s1)
         else if \<not> is_wix_installed h
         then (Inr (Inl result),
               print ''Error: WiX Toolset not found. It is required to build the MSI.'' s1)
         else
           bindM (do_cmake_reconfigure h root_dir
                    ''-G Ninja -DCPACK_GENERATOR=WIX -DBUILD_DEV_TOOLS=OFF -DCMAKE_BUILD_TYPE=Release'')
             (\<lambda>build_dir.
                bindM (do_cmake_build h build_dir) (\<lambda>_.
                bindM (do_cpack_build h build_dir) (\<lambda>_.
                ret (Inr build_dir)))) s1)"

definition msi_replace_ops :: "fs \<Rightarrow> path \<Rightarrow> path \<Rightarrow> fs_op list" where
  "msi_replace_ops f temp_dist_file dist_file =
     (if isfile f dist_file then [Op_remove dist_file] else [])
     @ [Op_rename temp_dist_file dist_file]"

definition msi_publish :: "host \<Rightarrow> path \<Rightarrow> bool \<Rightarrow> path \<Rightarrow> string \<Rightarrow> dict run" where
  "msi_publish h root_dir force build_dir asset_file_name s =
     (let result = [''success'' \<mapsto> PyBool False];
          temp_dist_file = path_join build_dir asset_file_name;
          dist_dir = path_join root_dir ''dist'';
          dist_file = path_join dist_dir asset_file_name;
          package_existed = isfile (st_fs s) dist_file
      in bindM (if force \<or> \<not> package_existed then ret True
                else bindM (compare_files (compare_msi_files h) temp_dist_file dist_file)
                       (\<lambda>same. ret (\<not> same)))
           (\<lambda>replace.
              bindM (if replace
                     then (\<lambda>s1. apply_ops (msi_replace_ops (st_fs s1) temp_dist_file dist_file) s1)
                     else ret ())
                (\<lambda>_. ret (result(''success'' \<mapsto> PyBool True,
                                  ''asset_file_name'' \<mapsto> PyStr asset_file_name,
                                  ''existed'' \<mapsto> PyBool package_existed,
                                  ''copied'' \<mapsto> PyBool replace)))) s)"

definition package_windows_msi :: "host \<Rightarrow> path \<Rightarrow> string \<Rightarrow> bool \<Rightarrow> dict run" where
  "package_windows_msi h root_dir version force =
     bindM (msi_build h root_dir)
       (\<lambda>b. case b of
               Inl result \<Rightarrow> ret result
             | Inr build_dir \<Rightarrow>
                 bindM (find_asset_with_ext build_dir version ''msi'') (\<lambda>asset_file_name.
                   msi_publish h root_dir force build_dir asset_file_name))"


subsection \<open>The Debian package\<close>

text \<open>Lines 281 to 285: the packages of other versions are deleted from \<^verbatim>\<open>dist\<close>.\<close>

definition deb_purge :: "path \<Rightarrow> string \<Rightarrow> fs \<Rightarrow> fs" where
  "deb_purge dist_dir version f =
     (let glob_all_packages = os_path_join dist_dir ''*.deb''
      in foldl (\<lambda>g file. if \<not> contains file version then force_delete file g else g)
           f (glob_glob f glob_all_packages))"

text \<open>
  Lines 287 to 307: the empty build directory, CMake and CPack.  \<open>Inl\<close> is an early
  \<^verbatim>\<open>return result\<close>.
\<close>

definition deb_build :: "host \<Rightarrow> path \<Rightarrow> (dict + path) run" where
  "deb_build h root_dir s0 =
     (let result = [''success'' \<mapsto> PyBool False];
          build_dir = os_path_join root_dir ''build'';
          s1 = s0\<lparr>st_fs := force_delete build_dir (st_fs s0)\<rparr>
      in bindM (os_makedirs build_dir) (\<lambda>_ s2.
           let s3 = s2\<lparr>st_cwd := build_dir\<rparr>
           in case run_tool h [''cmake'', ''-DCPACK_GENERATOR=DEB'', ''-DBUILD_DEV_TOOLS=OFF'', ''..''] s3 of
                None \<Rightarrow> (Inr (Inl result), print ''Error running CMake: '' s3)
              | Some s4 \<Rightarrow>
                  (case run_tool h [''cpack'', ''.''] s4 of
                     None \<Rightarrow> (Inr (Inl result), print ''Error running CPack: '' s4)
                   | Some s5 \<Rightarrow> (Inr (Inr build_dir), s5))) s1)"

text \<open>Lines 309 to 328: the single package CPack left in the build directory.\<close>

definition deb_locate :: "path \<Rightarrow> string \<Rightarrow> (dict + path \<times> string) run" where
  "deb_locate build_dir version s =
     (let result = [''success'' \<mapsto> PyBool False];
          glob_deb = os_path_join build_dir ''*.deb'';
          deb_files = glob_glob (st_fs s) glob_deb
      in if length deb_files \<noteq> 1
         then (Inr (Inl result),
               print (''Error: Expected one .deb file, found '' @ str_nat (length deb_files)) s)
         else
           let deb_file = hd deb_files
           in if \<not> contains deb_file version
              then (Inr (Inl result),
                    print (''Error: Expected version '' @ version @ '' in '' @ deb_file) s)
              else
                let asset_file_name = basename deb_file;
                    test_file_name = os_path_join build_dir asset_file_name
                in if \<not> path_exists (st_fs s) test_file_name
                   then (Inr (Inl result), print (''Error: '' @ test_file_name @ '' not found.'') s)
                   else (Inr (Inr (deb_file, asset_file_name)), s))"

text \<open>Lines 332 to 346: the package is moved into \<^verbatim>\<open>dist\<close> only if it differs.\<close>

definition deb_replace_ops :: "path \<Rightarrow> path \<Rightarrow> fs_op list" where
  "deb_replace_ops deb_file dist_file = [Op_rename deb_file dist_file]"

definition deb_publish :: "host \<Rightarrow> path \<Rightarrow> path \<Rightarrow> string \<Rightarrow> dict run" where
  "deb_publish h dist_dir deb_file asset_file_name s =
     (let result = [''success'' \<mapsto> PyBool False];
          dist_file = os_path_join dist_dir asset_file_name;
          package_existed = isfile (st_fs s) dist_file
      in bindM (if \<not> package_existed then ret True
                else bindM (compare_files (compare_deb_files h) deb_file dist_file)
                       (\<lambda>same. ret (\<not> same)))
           (\<lambda>differs.
              bindM (if differs then apply_ops (deb_replace_ops deb_file dist_file) else ret ())
                (\<lambda>_. ret (result(''success'' \<mapsto> PyBool True,
                                  ''asset_file_name'' \<mapsto> PyStr asset_file_name,
                                  ''existed'' \<mapsto> PyBool package_existed,
                                  ''copied'' \<mapsto> PyBool differs)))) s)"

definition package_deb :: "host \<Rightarrow> path \<Rightarrow> string \<Rightarrow> string \<Rightarrow> dict run" where
  "package_deb h root_dir version sudo_pwd s0 =
     (let result = [''success'' \<mapsto> PyBool False];
          dist_dir = os_path_join root_dir ''dist''
      in if \<not> is_debian_based h
         then (Inr result, print ''Error: Debian-based system required for .deb packaging.'' s0)
         else if \<not> is_cmake_installed h
         then (Inr result,
               print ''Error: CMake not found. It is required to be install for .deb creation'' s0)
         else
           let cmake_lists = os_path_join root_dir ''CMakeLists.txt''
           in if \<not> isfile (st_fs s0) cmake_lists
              then (Inr result,
                    print (''Error: '' @ cmake_lists
                      @ '' not found. Make sure you are working within a TA-Lib repos'') s0)
              else
                bindM (deb_build h root_dir)
                  (\<lambda>b. case b of
                          Inl r \<Rightarrow> ret r
                        | Inr build_dir \<Rightarrow>
                            bindM (deb_locate build_dir version)
                              (\<lambda>c. case c of
                                      Inl r \<Rightarrow> ret r
                                    | Inr (deb_file, asset_file_name) \<Rightarrow>
                                        deb_publish h dist_dir deb_file asset_file_name))
                  (s0\<lparr>st_fs := deb_purge dist_dir version (st_fs s0)\<rparr>))"

definition package_rpm :: "host \<Rightarrow> path \<Rightarrow> string \<Rightarrow> string \<Rightarrow> dict run" where
  "package_rpm h root_dir version sudo_pwd = ret [''success'' \<mapsto> PyBool False]"

subsection \<open>The source tarball\<close>

definition quoted :: "string \<Rightarrow> string" where
  "quoted t = [CHR 0x27] @ t @ [CHR 0x27]"

definition test_autotool_src :: "host \<Rightarrow> path \<Rightarrow> string \<Rightarrow> bool run" where
  "test_autotool_src h configure_dir sudo_pwd s0 =
     (let original_dir = st_cwd s0;
          root_dir = verify_git_repo h;
          (generated_files_temp_copy_1, f1) = create_temp_dir h root_dir (st_fs s0);
          (generated_files_temp_copy_2, f2) = create_temp_dir h root_dir f1;
          s1 = s0\<lparr>st_fs := f2, st_cwd := configure_dir\<rparr>;
          failed = (\<lambda>s. (Inr False, print ''Error during verification: '' s))
      in finally_chdir original_dir
           (\<lambda>s1.
              let git_changed = are_generated_files_git_changed h root_dir (st_fs s1);
                  s2 = s1\<lparr>st_fs := copy_file_list h configure_dir generated_files_temp_copy_1
                                      (get_src_generated_files h) (st_fs s1)\<rparr>
              in case run_tool h [''./configure''] s2 of
                   None \<Rightarrow> failed s2
                 | Some s3 \<Rightarrow>
               (case run_tool h [''make''] s3 of
                   None \<Rightarrow> failed s3
                 | Some s4 \<Rightarrow>
               (case run_tool h [''src/tools/ta_regtest/ta_regtest''] s4 of
                   None \<Rightarrow> failed s4
                 | Some s5 \<Rightarrow>
                   if \<not> isfile (st_fs s5) (os_path_join (st_cwd s5) ''src/tools/gen_code/gen_code'')
                   then (Inr False, print ''Error: src/tools/gen_code/gen_code does not exist.'' s5)
                   else if \<not> git_changed \<and> are_generated_files_git_changed h root_dir (st_fs s5)
                   then (Inr False,
                         print (''Error: Unexpected changes from gen_code to root_dir. Do ''
                                @ quoted ''git diff'') s5)
                   else
                     let s6 = s5\<lparr>st_fs := copy_file_list h configure_dir generated_files_temp_copy_2
                                         (get_src_generated_files h) (st_fs s5)\<rparr>
                     in if \<not> compare_dir h generated_files_temp_copy_1 generated_files_temp_copy_2
                               (st_fs s6)
                        then (Inr False, s6)
                        else (case run_command_sudo h [''make'', ''install''] sudo_pwd
                                     (st_cwd s6) (st_fs s6) of
                                None \<Rightarrow> failed s6
                              | Some f \<Rightarrow> (Inr True, s6\<lparr>st_fs := f\<rparr>))))) s1)"

definition tgz_asset_file_name :: "string \<Rightarrow> string" where
  "tgz_asset_file_name version = ''ta-lib-'' @ version @ ''-src.tar.gz''"

text \<open>Lines 366 to 370: the tarballs of other versions are deleted from \<^verbatim>\<open>dist\<close>.\<close>

definition tgz_purge :: "path \<Rightarrow> string \<Rightarrow> fs \<Rightarrow> fs" where
  "tgz_purge dist_dir asset_file_name f =
     (let glob_all_packages = os_path_join dist_dir ''*-src.tar.gz''
      in foldl (\<lambda>g file. if \<not> endswith file asset_file_name then force_delete file g else g)
           f (glob_glob f glob_all_packages))"

text \<open>
  Lines 372 to 417: \<^verbatim>\<open>make dist\<close>, the move of the tarball into \<^verbatim>\<open>temp\<close> and the test of
  the unpacked sources.  \<open>Inl\<close> is an early \<^verbatim>\<open>return result\<close>.
\<close>

definition tgz_build :: "host \<Rightarrow> path \<Rightarrow> dict \<Rightarrow> string \<Rightarrow> (dict + unit) run" where
  "tgz_build h root_dir result sudo_pwd s0 =
     (let temp_dir = os_path_join root_dir ''temp'';
          package_temp_file_prefix = ''ta-lib-git'';
          package_temp_dir = os_path_join temp_dir package_temp_file_prefix;
          package_temp_file_src = os_path_join root_dir (package_temp_file_prefix @ ''.tar.gz'');
          package_temp_file_dest = os_path_join temp_dir (package_temp_file_prefix @ ''.tar.gz'');
          s1 = s0\<lparr>st_fs := force_delete package_temp_dir
                        (force_delete package_temp_file_dest
                          (force_delete package_temp_file_src (st_fs s0)))\<rparr>
      in case run_tool h [''autoreconf'', ''-fi''] s1 of
           None \<Rightarrow> (Inr (Inl result), print (''Error running '' @ quoted ''autoreconf -fi'' @ '': '') s1)
         | Some s2 \<Rightarrow>
       (case run_tool h [''./configure''] s2 of
           None \<Rightarrow> (Inr (Inl result), print (''Error running '' @ quoted ''./configure'' @ '': '') s2)
         | Some s3 \<Rightarrow>
       (case run_tool h [''make'', ''dist''] s3 of
           None \<Rightarrow> (Inr (Inl result), print (''Error running '' @ quoted ''make dist'' @ '': '') s3)
         | Some s4 \<Rightarrow>
           if \<not> isfile (st_fs s4) package_temp_file_src
           then (Inr (Inl result), print (''Error: '' @ package_temp_file_src @ '' not found.'') s4)
           else
             bindM (apply_ops [Op_rename package_temp_file_src package_temp_file_dest]) (\<lambda>_ s5.
               let s6 = s5\<lparr>st_cwd := temp_dir\<rparr>;
                   s7 = s6\<lparr>st_fs := os_system h (''tar -xzf '' @ package_temp_file_dest)
                                       (st_cwd s6) (st_fs s6)\<rparr>
               in bindM (test_autotool_src h package_temp_dir sudo_pwd) (\<lambda>ok s8.
                    if \<not> ok
                    then (Inr (Inl result), print ''Error: Source package verification failed.'' s8)
                    else (Inr (Inr ()), s8)) s7) s4)))"

text \<open>
  Lines 419 to 439: the tarball is moved into \<^verbatim>\<open>dist\<close> under its release name only if its
  content differs, and what is left of it in \<^verbatim>\<open>temp\<close> is deleted.
\<close>

definition tgz_replace_ops :: "path \<Rightarrow> path \<Rightarrow> fs_op list" where
  "tgz_replace_ops package_temp_file_dest dist_file = [Op_rename package_temp_file_dest dist_file]"

definition tgz_publish :: "host \<Rightarrow> path \<Rightarrow> string \<Rightarrow> dict \<Rightarrow> dict run" where
  "tgz_publish h root_dir version result s =
     (let asset_file_name = tgz_asset_file_name version;
          dist_dir = os_path_join root_dir ''dist'';
          temp_dir = os_path_join root_dir ''temp'';
          package_temp_file_src = os_path_join root_dir ''ta-lib-git.tar.gz'';
          package_temp_file_dest = os_path_join temp_dir ''ta-lib-git.tar.gz'';
          dist_file = os_path_join dist_dir asset_file_name;
          package_existed = isfile (st_fs s) dist_file
      in bindM (if \<not> package_existed then ret True
                else bindM (compare_files (compare_tar_gz_files h) package_temp_file_dest dist_file)
                       (\<lambda>same. ret (\<not> same)))
           (\<lambda>differs.
              bindM (if differs then apply_ops (tgz_replace_ops package_temp_file_dest dist_file)
                     else ret ())
                (\<lambda>_ s1.
                   (Inr (result(''success'' \<mapsto> PyBool True,
                                ''existed'' \<mapsto> PyBool package_existed,
                                ''copied'' \<mapsto> PyBool differs)),
                    s1\<lparr>st_fs := force_delete package_temp_file_dest
                                  (force_delete package_temp_file_src (st_fs s1))\<rparr>))) s)"

definition package_src_tar_gz :: "host \<Rightarrow> path \<Rightarrow> string \<Rightarrow> string \<Rightarrow> dict run" where
  "package_src_tar_gz h root_dir version sudo_pwd s0 =
     (let result = [''success'' \<mapsto> PyBool False];
          asset_file_name = tgz_asset_file_name version;
          result = result(''asset_file_name'' \<mapsto> PyStr asset_file_name);
          dist_dir = os_path_join root_dir ''dist''
      in bindM (tgz_build h root_dir result sudo_pwd)
           (\<lambda>b. case b of
                   Inl r \<Rightarrow> ret r
                 | Inr _ \<Rightarrow> tgz_publish h root_dir version result)
           (s0\<lparr>st_fs := tgz_purge dist_dir asset_file_name (st_fs s0)\<rparr>))"


subsection \<open>The summary and the two orchestrators\<close>

definition display_package_results :: "dict \<Rightarrow> string list" where
  "display_package_results results =
     (let asset_built = dict_get results ''built'' (PyBool False);
          asset_built_success = dict_get results ''success'' (PyBool False);
          asset_file_name = dict_get results ''asset_file_name'' (PyStr ''unknown'');
          asset_copied = dict_get results ''copied'' (PyBool False);
          asset_existed = dict_get results ''existed'' (PyBool False)
      in if truthy asset_built
         then (if \<not> truthy asset_built_success
               then [''Error: Packaging dist/'' @ str_of asset_file_name @ '' failed.''] else [])
              @ (if truthy asset_copied
                 then (if truthy asset_existed
                       then [''Updated dist/'' @ str_of asset_file_name]
                       else [''Created dist/'' @ str_of asset_file_name])
                 else [''No changes for dist/'' @ str_of asset_file_name])
         else [str_of asset_file_name @ '' build skipped (not supported on this platform)''])"

definition print_lines :: "string list \<Rightarrow> state \<Rightarrow> state" where
  "print_lines ls s = s\<lparr>st_out := st_out s @ ls\<rparr>"

text \<open>
  What both orchestrators do with the dictionary a packaging function returns: merge it
  into the defaults, mark the format as built, and leave with \<^verbatim>\<open>sys.exit(1)\<close> when the
  packaging did not succeed.  The diagnostic ends with a full stop on Linux and without
  one on Windows.
\<close>

definition record_results :: "dict \<Rightarrow> dict option \<Rightarrow> string \<Rightarrow> dict run" where
  "record_results defaults results ending =
     bindM (dict_update defaults results) (\<lambda>d0.
       let d = d0(''built'' \<mapsto> PyBool True)
       in bindM (dict_item d ''success'') (\<lambda>ok.
            if \<not> truthy ok
            then bindM (dict_item d ''asset_file_name'') (\<lambda>n.
                   sys_exit (''Error: Packaging dist/'' @ str_of n @ '' failed'' @ ending))
            else ret d))"

definition default_results :: "string \<Rightarrow> dict" where
  "default_results name =
     [''success'' \<mapsto> PyBool False, ''built'' \<mapsto> PyBool False, ''asset_file_name'' \<mapsto> PyStr name]"

text \<open>Lines 537 to 551, 553 to 568 and 570 to 582 of \<^verbatim>\<open>package_all_linux\<close>.\<close>

definition linux_src_step :: "host \<Rightarrow> path \<Rightarrow> string \<Rightarrow> string \<Rightarrow> dict run" where
  "linux_src_step h root_dir version sudo_pwd =
     (let src_tar_gz_results = default_results ''src.tar.gz''
      in if is_ubuntu h
         then bindM (package_src_tar_gz h root_dir version sudo_pwd) (\<lambda>results.
                record_results src_tar_gz_results (Some results) ''.'')
         else ret src_tar_gz_results)"

definition linux_rpm_step :: "host \<Rightarrow> path \<Rightarrow> string \<Rightarrow> string \<Rightarrow> dict run" where
  "linux_rpm_step h root_dir version sudo_pwd =
     (let rpm_results = default_results ''.rpm''
      in if is_redhat_based h
         then if \<not> is_rpmbuild_installed h
              then sys_exit ''Error: rpmbuild not found. RPM not created''
              else bindM (package_deb h root_dir version sudo_pwd) (\<lambda>results.
                     record_results rpm_results (Some results) ''.'')
         else ret rpm_results)"

definition linux_deb_step :: "host \<Rightarrow> path \<Rightarrow> string \<Rightarrow> string \<Rightarrow> dict run" where
  "linux_deb_step h root_dir version sudo_pwd =
     (let deb_results = default_results ''.deb''
      in if is_debian_based h
         then bindM (package_deb h root_dir version sudo_pwd) (\<lambda>results.
                record_results deb_results (Some results) ''.'')
         else ret deb_results)"

definition summary_banner :: "string list" where
  "summary_banner = [[CHR 0x0A] @ ''***********'', ''* Summary *'', ''***********'']"

definition package_all_linux :: "host \<Rightarrow> path \<Rightarrow> string \<Rightarrow> string \<Rightarrow> unit run" where
  "package_all_linux h root_dir version sudo_pwd s0 =
     bindM (linux_src_step h root_dir version sudo_pwd) (\<lambda>src_tar_gz_results.
     bindM (linux_rpm_step h root_dir version sudo_pwd) (\<lambda>rpm_results.
     bindM (linux_deb_step h root_dir version sudo_pwd) (\<lambda>deb_results s.
       (Inr (),
        print ([CHR 0x0A] @ ''Packaging completed successfully.'')
          (print_lines (display_package_results deb_results)
            (print_lines (display_package_results rpm_results)
              (print_lines (display_package_results src_tar_gz_results)
                (print_lines summary_banner s))))))))
       (s0\<lparr>st_cwd := root_dir\<rparr>)"

text \<open>Lines 596 to 606 and 608 to 631 of \<^verbatim>\<open>package_all_windows\<close>.\<close>

definition windows_zip_step :: "host \<Rightarrow> path \<Rightarrow> string \<Rightarrow> dict run" where
  "windows_zip_step h root_dir version =
     (let zip_results = default_results ''.zip''
      in bindM (package_windows_zip h root_dir version) (\<lambda>results.
           record_results zip_results results []))"

definition windows_msi_step :: "host \<Rightarrow> path \<Rightarrow> string \<Rightarrow> bool \<Rightarrow> dict run" where
  "windows_msi_step h root_dir version force_msi_overwrite =
     (let msi_results = default_results ''.msi''
      in if \<not> is_wix_installed h
         then (\<lambda>s. (Inr msi_results, print ''Warning: WiX Toolset not found. MSI packaging skipped.'' s))
         else bindM (package_windows_msi h root_dir version force_msi_overwrite) (\<lambda>results.
                record_results msi_results (Some results) []))"

definition package_all_windows :: "host \<Rightarrow> path \<Rightarrow> string \<Rightarrow> unit run" where
  "package_all_windows h root_dir version =
     bindM (windows_zip_step h root_dir version) (\<lambda>zip_results.
     bindM (dict_item zip_results ''built'') (\<lambda>built.
     bindM (if truthy built then dict_item zip_results ''copied'' else ret built) (\<lambda>both.
       let force_msi_overwrite = (if truthy both then True else False)
       in bindM (windows_msi_step h root_dir version force_msi_overwrite) (\<lambda>msi_results s.
            (Inr (),
             print ''Packaging completed successfully.''
               (print_lines (display_package_results msi_results)
                 (print_lines (display_package_results zip_results)
                   (print_lines summary_banner s))))))))"


section \<open>Sample hosts and states\<close>

text \<open>
  A host on which every tool is installed and succeeds without touching a file, and on
  which two files are equivalent exactly when their bytes are equal; variations of it and
  small file systems give the concrete runs below.
\<close>

definition idle_host :: host where
  "idle_host =
     \<lparr>is_ubuntu = True, is_debian_based = True, is_redhat_based = False,
      is_rpmbuild_installed = True, is_cmake_installed = True, is_dotnet_installed = True,
      is_wix_installed = True,
      subprocess_run = (\<lambda>cmd cwd f. Some f),
      os_system = (\<lambda>cmd cwd f. f),
      create_rtf_from_txt = (\<lambda>txt rtf f. f),
      create_zip_file = (\<lambda>dir zip f. None),
      compare_zip_files = (\<lambda>a b. a = b),
      compare_msi_files = (\<lambda>a b. a = b),
      compare_deb_files = (\<lambda>a b. a = b),
      compare_tar_gz_files = (\<lambda>a b. a = b),
      verify_git_repo = ''/r'',
      create_temp_dir = (\<lambda>root f. (''/r/tmp'', f)),
      are_generated_files_git_changed = (\<lambda>root f. False),
      get_src_generated_files = [],
      copy_file_list = (\<lambda>src dst names f. f),
      compare_dir = (\<lambda>a b f. True),
      run_command_sudo = (\<lambda>cmd pwd cwd f. Some f)\<rparr>"

definition data :: "string \<Rightarrow> file_data" where
  "data b = \<lparr>bytes = b, mtime = 0\<rparr>"

definition state_of :: "fs \<Rightarrow> state" where
  "state_of f = \<lparr>st_fs = f, st_cwd = ''/r'', st_out = [], st_now = 1\<rparr>"

text \<open>
  A host whose build writes the three libraries into the build directory, whose CPack
  writes an installer and a Debian package of version 1 there, and whose zip tool writes
  the archive it is asked for; and a RedHat host that is neither Ubuntu nor Debian-based.
\<close>

definition build_host :: host where
  "build_host =
     idle_host
       \<lparr>subprocess_run :=
          (\<lambda>cmd cwd f.
             Some (if cmd = [''cmake'', ''--build'', ''.'']
                   then write_file (os_path_join cwd ''ta-lib.dll'') (data ''dll'')
                          (write_file (os_path_join cwd ''ta-lib.lib'') (data ''lib'')
                            (write_file (os_path_join cwd ''ta-lib-static.lib'') (data ''static'') f))
                   else if cmd = [''cpack'', ''.'']
                   then write_file (os_path_join cwd ''ta-lib-1.msi'') (data ''msi'')
                          (write_file (os_path_join cwd ''ta-lib-1.deb'') (data ''deb'') f)
                   else f)),
        create_zip_file := (\<lambda>dir zip f. Some (write_file zip (data ''zip'') f))\<rparr>"

definition redhat_host :: host where
  "redhat_host = idle_host\<lparr>is_ubuntu := False, is_debian_based := False, is_redhat_based := True\<rparr>"

text \<open>
  A Windows run on \<open>build_host\<close>: the state it starts in, with an installer already
  published, the state after the zip step, and the state after the build of the
  installer.
\<close>

definition win_start :: state where
  "win_start =
     state_of [(''/r/CMakeLists.txt'', data ''C''),
               (''/r/dist/ta-lib-1.msi'', \<lparr>bytes = ''msi'', mtime = 9\<rparr>)]"

definition win_staged :: fs where
  "win_staged =
     [(''/r/dist/ta-lib-1-win64.zip'', \<lparr>bytes = ''zip'', mtime = 5\<rparr>),
      (''/r/temp/ta-lib-1-win64.zip'', data ''zip''),
      (''/r/temp/ta-lib-1-win64/VERSION.txt'', \<lparr>bytes = ''1'', mtime = 4\<rparr>),
      (''/r/temp/ta-lib-1-win64/lib/ta-lib-static.lib'', \<lparr>bytes = ''static'', mtime = 3\<rparr>),
      (''/r/temp/ta-lib-1-win64/lib/ta-lib.lib'', \<lparr>bytes = ''lib'', mtime = 2\<rparr>),
      (''/r/temp/ta-lib-1-win64/lib/ta-lib.dll'', \<lparr>bytes = ''dll'', mtime = 1\<rparr>),
      (''/r/CMakeLists.txt'', data ''C''),
      (''/r/dist/ta-lib-1.msi'', \<lparr>bytes = ''msi'', mtime = 9\<rparr>)]"

definition win_after_zip :: state where
  "win_after_zip =
     \<lparr>st_fs = take 6 win_staged
              @ [(''/r/build/ta-lib.dll'', data ''dll''), (''/r/build/ta-lib.lib'', data ''lib''),
                 (''/r/build/ta-lib-static.lib'', data ''static'')]
              @ drop 6 win_staged,
      st_cwd = ''/r'',
      st_out = [''CMake command: [cmake] [-G] [Ninja] [-DBUILD_DEV_TOOLS=OFF] [..]''],
      st_now = 6\<rparr>"

definition win_after_build :: state where
  "win_after_build =
     \<lparr>st_fs = [(''/r/build/ta-lib-1.msi'', data ''msi''), (''/r/build/ta-lib-1.deb'', data ''deb''),
               (''/r/build/ta-lib.dll'', data ''dll''), (''/r/build/ta-lib.lib'', data ''lib''),
               (''/r/build/ta-lib-static.lib'', data ''static'')]
              @ win_staged,
      st_cwd = ''/r'',
      st_out = [''CMake command: [cmake] [-G] [Ninja] [-DBUILD_DEV_TOOLS=OFF] [..]'',
                ''CMake command: [cmake] [-G] [Ninja] [-DCPACK_GENERATOR=WIX] [-DBUILD_DEV_TOOLS=OFF] [-DCMAKE_BUILD_TYPE=Release] [..]''],
      st_now = 6\<rparr>"


section \<open>What the external tools may be assumed to do\<close>

text \<open>
  The build tools are not part of the script.  Where a statement is about what a run
  leaves in a directory, it is made for hosts whose tools leave that directory alone:
  \<open>unchanged_below d f g\<close> says that the file systems \<open>f\<close> and \<open>g\<close> agree on \<open>d\<close> and on
  everything below it.
\<close>

definition unchanged_below :: "path \<Rightarrow> fs \<Rightarrow> fs \<Rightarrow> bool" where
  "unchanged_below d f g = (\<forall>p. below d p \<longrightarrow> lookup g p = lookup f p)"

definition tools_leave :: "host \<Rightarrow> path \<Rightarrow> bool" where
  "tools_leave h d =
     ((\<forall>cmd cwd f g. subprocess_run h cmd cwd f = Some g \<longrightarrow> unchanged_below d f g)
      \<and> (\<forall>txt rtf f. unchanged_below d f (create_rtf_from_txt h txt rtf f)))"

section \<open>Files, paths and runs: basic facts\<close>

lemma lookup_remove_file: "lookup (remove_file p f) q = (if q = p then None else lookup f q)"
  by (induction f) (auto simp: lookup_def remove_file_def)

lemma lookup_write_file: "lookup (write_file p x f) q = (if q = p then Some x else lookup f q)"
  using lookup_remove_file[of p f q] by (simp add: write_file_def lookup_def)

lemma lookup_force_delete: "lookup (force_delete p f) q = (if below p q then None else lookup f q)"
  by (induction f) (auto simp: lookup_def force_delete_def)

lemma startswith_append: "startswith (x @ a) (x @ b) = startswith a b"
  by (induction x) auto

lemma sep_dir_lit: "sep_dir (x @ ''build'') = x @ ''build/''" "sep_dir (x @ ''dist'') = x @ ''dist/''"
  "sep_dir (x @ ''temp'') = x @ ''temp/''"
  by (simp_all add: sep_dir_def)

lemma join_lit:
  "os_path_join root ''build'' = sep_dir root @ ''build''"
  "os_path_join root ''dist'' = sep_dir root @ ''dist''"
  "os_path_join root ''temp'' = sep_dir root @ ''temp''"
  by (simp_all add: os_path_join_def)

lemma join_name: "\<not> startswith n ''/'' \<Longrightarrow> os_path_join d n = sep_dir d @ n"
  by (simp add: os_path_join_def)

lemmas run_defs = bindM_def ret_def throw_def apply_ops_def compare_files_def

lemma msi_publish_run:
  assumes nm: "\<not> startswith asset ''/''"
    and cand: "lookup (st_fs s) (path_join (path_join root ''build'') asset) = Some c"
  shows "msi_publish h root force (path_join root ''build'') asset s =
           (Inr [''success'' \<mapsto> PyBool True, ''asset_file_name'' \<mapsto> PyStr asset,
                 ''existed'' \<mapsto> PyBool (isfile (st_fs s) (path_join (path_join root ''dist'') asset)),
                 ''copied'' \<mapsto> PyBool (force \<or> \<not> isfile (st_fs s) (path_join (path_join root ''dist'') asset)
                     \<or> fst (compare_files (compare_msi_files h) (path_join (path_join root ''build'') asset)
                              (path_join (path_join root ''dist'') asset) s) = Inr False)],
            if force \<or> \<not> isfile (st_fs s) (path_join (path_join root ''dist'') asset)
                     \<or> fst (compare_files (compare_msi_files h) (path_join (path_join root ''build'') asset)
                              (path_join (path_join root ''dist'') asset) s) = Inr False
            then s\<lparr>st_fs := write_file (path_join (path_join root ''dist'') asset) c
                     (remove_file (path_join (path_join root ''build'') asset)
                        (if isfile (st_fs s) (path_join (path_join root ''dist'') asset)
                         then remove_file (path_join (path_join root ''dist'') asset) (st_fs s)
                         else st_fs s))\<rparr>
            else s)"
proof -
  let ?cand = "path_join (path_join root ''build'') asset"
  let ?dist = "path_join (path_join root ''dist'') asset"
  have ne: "?cand \<noteq> ?dist"
    using nm by (simp add: path_join_def join_lit join_name sep_dir_lit)
  show ?thesis
    using cand ne
    by (auto simp: msi_publish_def Let_def run_defs msi_replace_ops_def isfile_def
        lookup_remove_file lookup_write_file split: option.splits)
qed


lemma zip_publish_run:
  fixes h root version result s
  defines "cand \<equiv> path_join (path_join root ''temp'') (zip_asset_file_name version)"
    and "dist \<equiv> path_join (path_join root ''dist'') (zip_asset_file_name version)"
  defines "differs \<equiv> \<not> isfile (st_fs s) dist
                     \<or> fst (compare_files (compare_zip_files h) cand dist s) = Inr False"
  assumes cand: "lookup (st_fs s) cand = Some c"
  shows "zip_publish h root version result s =
           (Inr (result(''success'' \<mapsto> PyBool True,
                        ''existed'' \<mapsto> PyBool (isfile (st_fs s) dist),
                        ''copied'' \<mapsto> PyBool differs)),
            if differs
            then s\<lparr>st_fs := write_file dist \<lparr>bytes = bytes c, mtime = st_now s\<rparr> (st_fs s),
                   st_now := Suc (st_now s)\<rparr>
            else s)"
  using cand unfolding cand_def dist_def differs_def
  by (auto simp: zip_publish_def Let_def run_defs zip_replace_ops_def isfile_def
      split: option.splits)

lemma deb_publish_run:
  fixes h root asset s
  defines "cand \<equiv> os_path_join (os_path_join root ''build'') asset"
    and "dist \<equiv> os_path_join (os_path_join root ''dist'') asset"
  defines "differs \<equiv> \<not> isfile (st_fs s) dist
                     \<or> fst (compare_files (compare_deb_files h) cand dist s) = Inr False"
  assumes cand: "lookup (st_fs s) cand = Some c"
  shows "deb_publish h (os_path_join root ''dist'') cand asset s =
           (Inr [''success'' \<mapsto> PyBool True, ''asset_file_name'' \<mapsto> PyStr asset,
                 ''existed'' \<mapsto> PyBool (isfile (st_fs s) dist),
                 ''copied'' \<mapsto> PyBool differs],
            if differs
            then s\<lparr>st_fs := write_file dist c (remove_file cand (st_fs s))\<rparr>
            else s)"
  using cand unfolding cand_def dist_def differs_def
  by (auto simp: deb_publish_def Let_def run_defs deb_replace_ops_def isfile_def
      split: option.splits)

lemma tgz_publish_run:
  fixes h root version result s
  defines "cand \<equiv> os_path_join (os_path_join root ''temp'') ''ta-lib-git.tar.gz''"
    and "src \<equiv> os_path_join root ''ta-lib-git.tar.gz''"
    and "dist \<equiv> os_path_join (os_path_join root ''dist'') (tgz_asset_file_name version)"
  defines "differs \<equiv> \<not> isfile (st_fs s) dist
                     \<or> fst (compare_files (compare_tar_gz_files h) cand dist s) = Inr False"
  assumes cand: "lookup (st_fs s) cand = Some c"
  shows "tgz_publish h root version result s =
           (Inr (result(''success'' \<mapsto> PyBool True,
                        ''existed'' \<mapsto> PyBool (isfile (st_fs s) dist),
                        ''copied'' \<mapsto> PyBool differs)),
            s\<lparr>st_fs := force_delete cand (force_delete src
                         (if differs then write_file dist c (remove_file cand (st_fs s))
                          else st_fs s))\<rparr>)"
  using cand unfolding cand_def dist_def differs_def src_def
  by (auto simp: tgz_publish_def Let_def run_defs tgz_replace_ops_def isfile_def
      split: option.splits)

lemma display_outcome:
  assumes "r ''success'' = Some (PyBool True)" "r ''asset_file_name'' = Some (PyStr a)"
    "r ''existed'' = Some (PyBool e)" "r ''copied'' = Some (PyBool d)"
  shows "display_package_results ((default_results n ++ r)(''built'' \<mapsto> PyBool True)) =
   [if d then (if e then ''Updated dist/'' @ a else ''Created dist/'' @ a)
    else ''No changes for dist/'' @ a]"
  using assms
  by (simp add: display_package_results_def default_results_def dict_get_def truthy_def str_of_def
      map_add_def)

section \<open>The publish decision\<close>

text \<open>
  C1, as the script has it.  A publish attempt is the publish part of a packaging function,
  run in a state in which the candidate \<open>c\<close> lies where the build left it.  For each of
  the four formats the
  attempt returns a result whose \<open>copied\<close> flag is true exactly if \<open>force\<close> is set (only
  the installer has it), or no file of that name is published, or the comparison of the
  format reports the two files as not equivalent; \<open>existed\<close> tells whether a file was
  published before.  The summary line is "Updated" or "Created" when copied, according to
  \<open>existed\<close>, and "No changes" otherwise.  When copied, the published file has the
  candidate's content.  When not copied, nothing is written and nothing is deleted for the
  zip, the installer and the Debian package: the state is left as it was, so the candidate
  is still where the build left it and never reaches \<^verbatim>\<open>dist\<close>; only the tarball, whose
  published file is likewise untouched, is deleted from \<^verbatim>\<open>temp\<close>.
\<close>

theorem publish_decision:
  fixes h :: host and root version asset :: string and force :: bool and s :: state
  defines "zip_cand \<equiv> path_join (path_join root ''temp'') (zip_asset_file_name version)"
    and "zip_dist \<equiv> path_join (path_join root ''dist'') (zip_asset_file_name version)"
    and "msi_cand \<equiv> path_join (path_join root ''build'') asset"
    and "msi_dist \<equiv> path_join (path_join root ''dist'') asset"
    and "deb_cand \<equiv> os_path_join (os_path_join root ''build'') asset"
    and "deb_dist \<equiv> os_path_join (os_path_join root ''dist'') asset"
    and "tgz_cand \<equiv> os_path_join (os_path_join root ''temp'') ''ta-lib-git.tar.gz''"
    and "tgz_dist \<equiv> os_path_join (os_path_join root ''dist'') (tgz_asset_file_name version)"
  defines "zip_copy \<equiv> \<not> isfile (st_fs s) zip_dist
                      \<or> fst (compare_files (compare_zip_files h) zip_cand zip_dist s) = Inr False"
    and "msi_copy \<equiv> force \<or> \<not> isfile (st_fs s) msi_dist
                      \<or> fst (compare_files (compare_msi_files h) msi_cand msi_dist s) = Inr False"
    and "deb_copy \<equiv> \<not> isfile (st_fs s) deb_dist
                      \<or> fst (compare_files (compare_deb_files h) deb_cand deb_dist s) = Inr False"
    and "tgz_copy \<equiv> \<not> isfile (st_fs s) tgz_dist
                      \<or> fst (compare_files (compare_tar_gz_files h) tgz_cand tgz_dist s) = Inr False"
  assumes name: "\<not> startswith asset ''/''"
  shows "(lookup (st_fs s) zip_cand = Some c \<longrightarrow>
            (\<exists>r s'. zip_publish h root version
                       [''success'' \<mapsto> PyBool False,
                        ''asset_file_name'' \<mapsto> PyStr (zip_asset_file_name version)] s = (Inr r, s')
               \<and> r ''copied'' = Some (PyBool zip_copy)
               \<and> r ''existed'' = Some (PyBool (isfile (st_fs s) zip_dist))
               \<and> display_package_results ((default_results ''.zip'' ++ r)(''built'' \<mapsto> PyBool True))
                   = [if zip_copy
                      then (if isfile (st_fs s) zip_dist
                            then ''Updated dist/'' @ zip_asset_file_name version
                            else ''Created dist/'' @ zip_asset_file_name version)
                      else ''No changes for dist/'' @ zip_asset_file_name version]
               \<and> (zip_copy \<longrightarrow> map_option bytes (lookup (st_fs s') zip_dist) = Some (bytes c))
               \<and> (\<not> zip_copy \<longrightarrow> s' = s)))
       \<and> (lookup (st_fs s) msi_cand = Some c \<longrightarrow>
            (\<exists>r s'. msi_publish h root force (path_join root ''build'') asset s = (Inr r, s')
               \<and> r ''copied'' = Some (PyBool msi_copy)
               \<and> r ''existed'' = Some (PyBool (isfile (st_fs s) msi_dist))
               \<and> display_package_results ((default_results ''.msi'' ++ r)(''built'' \<mapsto> PyBool True))
                   = [if msi_copy
                      then (if isfile (st_fs s) msi_dist
                            then ''Updated dist/'' @ asset else ''Created dist/'' @ asset)
                      else ''No changes for dist/'' @ asset]
               \<and> (msi_copy \<longrightarrow> lookup (st_fs s') msi_dist = Some c)
               \<and> (\<not> msi_copy \<longrightarrow> s' = s)))
       \<and> (lookup (st_fs s) deb_cand = Some c \<longrightarrow>
            (\<exists>r s'. deb_publish h (os_path_join root ''dist'') deb_cand asset s = (Inr r, s')
               \<and> r ''copied'' = Some (PyBool deb_copy)
               \<and> r ''existed'' = Some (PyBool (isfile (st_fs s) deb_dist))
               \<and> display_package_results ((default_results ''.deb'' ++ r)(''built'' \<mapsto> PyBool True))
                   = [if deb_copy
                      then (if isfile (st_fs s) deb_dist
                            then ''Updated dist/'' @ asset else ''Created dist/'' @ asset)
                      else ''No changes for dist/'' @ asset]
               \<and> (deb_copy \<longrightarrow> lookup (st_fs s') deb_dist = Some c)
               \<and> (\<not> deb_copy \<longrightarrow> s' = s)))
       \<and> (lookup (st_fs s) tgz_cand = Some c \<longrightarrow>
            (\<exists>r s'. tgz_publish h root version
                       [''success'' \<mapsto> PyBool False,
                        ''asset_file_name'' \<mapsto> PyStr (tgz_asset_file_name version)] s = (Inr r, s')
               \<and> r ''copied'' = Some (PyBool tgz_copy)
               \<and> r ''existed'' = Some (PyBool (isfile (st_fs s) tgz_dist))
               \<and> display_package_results ((default_results ''src.tar.gz'' ++ r)(''built'' \<mapsto> PyBool True))
                   = [if tgz_copy
                      then (if isfile (st_fs s) tgz_dist
                            then ''Updated dist/'' @ tgz_asset_file_name version
                            else ''Created dist/'' @ tgz_asset_file_name version)
                      else ''No changes for dist/'' @ tgz_asset_file_name version]
               \<and> (tgz_copy \<longrightarrow> lookup (st_fs s') tgz_dist = Some c)
               \<and> (\<not> tgz_copy \<longrightarrow>
                     lookup (st_fs s') tgz_dist = lookup (st_fs s) tgz_dist
                     \<and> lookup (st_fs s') tgz_cand = None)))"
proof -
  have zip: "\<exists>r s'. zip_publish h root version
                       [''success'' \<mapsto> PyBool False,
                        ''asset_file_name'' \<mapsto> PyStr (zip_asset_file_name version)] s = (Inr r, s')
               \<and> r ''copied'' = Some (PyBool zip_copy)
               \<and> r ''existed'' = Some (PyBool (isfile (st_fs s) zip_dist))
               \<and> display_package_results ((default_results ''.zip'' ++ r)(''built'' \<mapsto> PyBool True))
                   = [if zip_copy
                      then (if isfile (st_fs s) zip_dist
                            then ''Updated dist/'' @ zip_asset_file_name version
                            else ''Created dist/'' @ zip_asset_file_name version)
                      else ''No changes for dist/'' @ zip_asset_file_name version]
               \<and> (zip_copy \<longrightarrow> map_option bytes (lookup (st_fs s') zip_dist) = Some (bytes c))
               \<and> (\<not> zip_copy \<longrightarrow> s' = s)"
    if c: "lookup (st_fs s) zip_cand = Some c"
  proof -
    define r where "r = [''success'' \<mapsto> PyBool False,
        ''asset_file_name'' \<mapsto> PyStr (zip_asset_file_name version),
        ''success'' \<mapsto> PyBool True, ''existed'' \<mapsto> PyBool (isfile (st_fs s) zip_dist),
        ''copied'' \<mapsto> PyBool zip_copy]"
    define s' where "s' = (if zip_copy
            then s\<lparr>st_fs := write_file zip_dist \<lparr>bytes = bytes c, mtime = st_now s\<rparr> (st_fs s),
                   st_now := Suc (st_now s)\<rparr>
            else s)"
    have run: "zip_publish h root version
                       [''success'' \<mapsto> PyBool False,
                        ''asset_file_name'' \<mapsto> PyStr (zip_asset_file_name version)] s = (Inr r, s')"
      unfolding r_def s'_def zip_copy_def zip_dist_def zip_cand_def
      by (rule zip_publish_run[OF c[unfolded zip_cand_def]])
    have d: "display_package_results ((default_results ''.zip'' ++ r)(''built'' \<mapsto> PyBool True))
                   = [if zip_copy
                      then (if isfile (st_fs s) zip_dist
                            then ''Updated dist/'' @ zip_asset_file_name version
                            else ''Created dist/'' @ zip_asset_file_name version)
                      else ''No changes for dist/'' @ zip_asset_file_name version]"
      by (rule display_outcome) (simp_all add: r_def)
    have e: "r ''copied'' = Some (PyBool zip_copy)"
      "r ''existed'' = Some (PyBool (isfile (st_fs s) zip_dist))"
      by (simp_all add: r_def)
    have f: "zip_copy \<longrightarrow> map_option bytes (lookup (st_fs s') zip_dist) = Some (bytes c)"
      "\<not> zip_copy \<longrightarrow> s' = s"
      by (simp_all add: s'_def lookup_write_file)
    show ?thesis using run d e f by blast
  qed
  have msi: "\<exists>r s'. msi_publish h root force (path_join root ''build'') asset s = (Inr r, s')
               \<and> r ''copied'' = Some (PyBool msi_copy)
               \<and> r ''existed'' = Some (PyBool (isfile (st_fs s) msi_dist))
               \<and> display_package_results ((default_results ''.msi'' ++ r)(''built'' \<mapsto> PyBool True))
                   = [if msi_copy
                      then (if isfile (st_fs s) msi_dist
                            then ''Updated dist/'' @ asset else ''Created dist/'' @ asset)
                      else ''No changes for dist/'' @ asset]
               \<and> (msi_copy \<longrightarrow> lookup (st_fs s') msi_dist = Some c)
               \<and> (\<not> msi_copy \<longrightarrow> s' = s)"
    if c: "lookup (st_fs s) msi_cand = Some c"
  proof -
    define r where "r = [''success'' \<mapsto> PyBool True, ''asset_file_name'' \<mapsto> PyStr asset,
        ''existed'' \<mapsto> PyBool (isfile (st_fs s) msi_dist), ''copied'' \<mapsto> PyBool msi_copy]"
    define s' where "s' = (if msi_copy
            then s\<lparr>st_fs := write_file msi_dist c (remove_file msi_cand
                      (if isfile (st_fs s) msi_dist then remove_file msi_dist (st_fs s)
                       else st_fs s))\<rparr>
            else s)"
    have run: "msi_publish h root force (path_join root ''build'') asset s = (Inr r, s')"
      unfolding r_def s'_def msi_copy_def msi_dist_def msi_cand_def
      by (rule msi_publish_run[OF name c[unfolded msi_cand_def]])
    have d: "display_package_results ((default_results ''.msi'' ++ r)(''built'' \<mapsto> PyBool True))
                   = [if msi_copy
                      then (if isfile (st_fs s) msi_dist
                            then ''Updated dist/'' @ asset else ''Created dist/'' @ asset)
                      else ''No changes for dist/'' @ asset]"
      by (rule display_outcome) (simp_all add: r_def)
    have e: "r ''copied'' = Some (PyBool msi_copy)"
      "r ''existed'' = Some (PyBool (isfile (st_fs s) msi_dist))"
      by (simp_all add: r_def)
    have f: "msi_copy \<longrightarrow> lookup (st_fs s') msi_dist = Some c" "\<not> msi_copy \<longrightarrow> s' = s"
      by (simp_all add: s'_def lookup_write_file)
    show ?thesis using run d e f by blast
  qed
  have deb: "\<exists>r s'. deb_publish h (os_path_join root ''dist'') deb_cand asset s = (Inr r, s')
               \<and> r ''copied'' = Some (PyBool deb_copy)
               \<and> r ''existed'' = Some (PyBool (isfile (st_fs s) deb_dist))
               \<and> display_package_results ((default_results ''.deb'' ++ r)(''built'' \<mapsto> PyBool True))
                   = [if deb_copy
                      then (if isfile (st_fs s) deb_dist
                            then ''Updated dist/'' @ asset else ''Created dist/'' @ asset)
                      else ''No changes for dist/'' @ asset]
               \<and> (deb_copy \<longrightarrow> lookup (st_fs s') deb_dist = Some c)
               \<and> (\<not> deb_copy \<longrightarrow> s' = s)"
    if c: "lookup (st_fs s) deb_cand = Some c"
  proof -
    define r where "r = [''success'' \<mapsto> PyBool True, ''asset_file_name'' \<mapsto> PyStr asset,
        ''existed'' \<mapsto> PyBool (isfile (st_fs s) deb_dist), ''copied'' \<mapsto> PyBool deb_copy]"
    define s' where "s' = (if deb_copy
            then s\<lparr>st_fs := write_file deb_dist c (remove_file deb_cand (st_fs s))\<rparr>
            else s)"
    have run: "deb_publish h (os_path_join root ''dist'') deb_cand asset s = (Inr r, s')"
      unfolding r_def s'_def deb_copy_def deb_dist_def deb_cand_def
      by (rule deb_publish_run[OF c[unfolded deb_cand_def]])
    have d: "display_package_results ((default_results ''.deb'' ++ r)(''built'' \<mapsto> PyBool True))
                   = [if deb_copy
                      then (if isfile (st_fs s) deb_dist
                            then ''Updated dist/'' @ asset else ''Created dist/'' @ asset)
                      else ''No changes for dist/'' @ asset]"
      by (rule display_outcome) (simp_all add: r_def)
    have e: "r ''copied'' = Some (PyBool deb_copy)"
      "r ''existed'' = Some (PyBool (isfile (st_fs s) deb_dist))"
      by (simp_all add: r_def)
    have f: "deb_copy \<longrightarrow> lookup (st_fs s') deb_dist = Some c" "\<not> deb_copy \<longrightarrow> s' = s"
      by (simp_all add: s'_def lookup_write_file)
    show ?thesis using run d e f by blast
  qed
  have tgz: "\<exists>r s'. tgz_publish h root version
                       [''success'' \<mapsto> PyBool False,
                        ''asset_file_name'' \<mapsto> PyStr (tgz_asset_file_name version)] s = (Inr r, s')
               \<and> r ''copied'' = Some (PyBool tgz_copy)
               \<and> r ''existed'' = Some (PyBool (isfile (st_fs s) tgz_dist))
               \<and> display_package_results ((default_results ''src.tar.gz'' ++ r)(''built'' \<mapsto> PyBool True))
                   = [if tgz_copy
                      then (if isfile (st_fs s) tgz_dist
                            then ''Updated dist/'' @ tgz_asset_file_name version
                            else ''Created dist/'' @ tgz_asset_file_name version)
                      else ''No changes for dist/'' @ tgz_asset_file_name version]
               \<and> (tgz_copy \<longrightarrow> lookup (st_fs s') tgz_dist = Some c)
               \<and> (\<not> tgz_copy \<longrightarrow>
                     lookup (st_fs s') tgz_dist = lookup (st_fs s) tgz_dist
                     \<and> lookup (st_fs s') tgz_cand = None)"
    if c: "lookup (st_fs s) tgz_cand = Some c"
  proof -
    define r where "r = [''success'' \<mapsto> PyBool False,
        ''asset_file_name'' \<mapsto> PyStr (tgz_asset_file_name version),
        ''success'' \<mapsto> PyBool True, ''existed'' \<mapsto> PyBool (isfile (st_fs s) tgz_dist),
        ''copied'' \<mapsto> PyBool tgz_copy]"
    define s' where "s' = s\<lparr>st_fs := force_delete tgz_cand
                      (force_delete (os_path_join root ''ta-lib-git.tar.gz'')
                         (if tgz_copy then write_file tgz_dist c (remove_file tgz_cand (st_fs s))
                          else st_fs s))\<rparr>"
    have run: "tgz_publish h root version
                       [''success'' \<mapsto> PyBool False,
                        ''asset_file_name'' \<mapsto> PyStr (tgz_asset_file_name version)] s = (Inr r, s')"
      unfolding r_def s'_def tgz_copy_def tgz_dist_def tgz_cand_def
      by (rule tgz_publish_run[OF c[unfolded tgz_cand_def]])
    have nb: "\<not> below tgz_cand tgz_dist" "\<not> below (os_path_join root ''ta-lib-git.tar.gz'') tgz_dist"
      unfolding tgz_cand_def tgz_dist_def
      by (simp_all add: below_def join_lit os_path_join_def sep_dir_lit tgz_asset_file_name_def
          startswith_append)
    have d: "display_package_results ((default_results ''src.tar.gz'' ++ r)(''built'' \<mapsto> PyBool True))
                   = [if tgz_copy
                      then (if isfile (st_fs s) tgz_dist
                            then ''Updated dist/'' @ tgz_asset_file_name version
                            else ''Created dist/'' @ tgz_asset_file_name version)
                      else ''No changes for dist/'' @ tgz_asset_file_name version]"
      by (rule display_outcome) (simp_all add: r_def)
    have e: "r ''copied'' = Some (PyBool tgz_copy)"
      "r ''existed'' = Some (PyBool (isfile (st_fs s) tgz_dist))"
      by (simp_all add: r_def)
    have f: "tgz_copy \<longrightarrow> lookup (st_fs s') tgz_dist = Some c"
      "\<not> tgz_copy \<longrightarrow> lookup (st_fs s') tgz_dist = lookup (st_fs s) tgz_dist
                     \<and> lookup (st_fs s') tgz_cand = None"
      using nb by (simp_all add: s'_def lookup_write_file lookup_force_delete below_def)
    show ?thesis using run d e f by blast
  qed
  from zip msi deb tgz show ?thesis by blast
qed


lemma state_of_sel: "st_fs (state_of f) = f" "st_now (state_of f) = 1" "st_cwd (state_of f) = ''/r''"
  "st_out (state_of f) = []"
  by (simp_all add: state_of_def)

lemmas path_eval = path_join_def os_path_join_def sep_dir_def zip_asset_file_name_def
  tgz_asset_file_name_def

lemma idle_host_sel:
  "compare_zip_files idle_host = (=)" "compare_msi_files idle_host = (=)"
  "compare_deb_files idle_host = (=)" "compare_tar_gz_files idle_host = (=)"
  "is_ubuntu idle_host" "is_debian_based idle_host" "\<not> is_redhat_based idle_host"
  "is_rpmbuild_installed idle_host" "is_cmake_installed idle_host" "is_dotnet_installed idle_host"
  "is_wix_installed idle_host" "subprocess_run idle_host = (\<lambda>cmd cwd f. Some f)"
  "create_zip_file idle_host = (\<lambda>dir zip f. None)"
  "create_rtf_from_txt idle_host = (\<lambda>txt rtf f. f)"
  by (simp_all add: idle_host_def)

lemmas host_eval = idle_host_sel data_def

text \<open>
  The theorem at work on a host that compares bytes: a zip that differs from the published
  one is an update, an installer equal to the published one is no change, and a tarball
  with nothing published before is created.
\<close>

theorem publish_decision_witness:
  "\<not> startswith ''a-1'' ''/''
   \<and> lookup [(''/r/temp/ta-lib-1-win64.zip'', data ''N''), (''/r/dist/ta-lib-1-win64.zip'', data ''O''),
              (''/r/build/a-1'', data ''N''), (''/r/dist/a-1'', data ''N''),
              (''/r/temp/ta-lib-git.tar.gz'', data ''N'')] ''/r/temp/ta-lib-1-win64.zip'' = Some (data ''N'')
   \<and> (\<exists>r s'. zip_publish idle_host ''/r'' ''1''
                [''success'' \<mapsto> PyBool False, ''asset_file_name'' \<mapsto> PyStr (zip_asset_file_name ''1'')]
                (state_of [(''/r/temp/ta-lib-1-win64.zip'', data ''N''), (''/r/dist/ta-lib-1-win64.zip'', data ''O''),
              (''/r/build/a-1'', data ''N''), (''/r/dist/a-1'', data ''N''),
              (''/r/temp/ta-lib-git.tar.gz'', data ''N'')]) = (Inr r, s')
          \<and> display_package_results ((default_results ''.zip'' ++ r)(''built'' \<mapsto> PyBool True))
              = [''Updated dist/ta-lib-1-win64.zip''])
   \<and> (\<exists>r s'. msi_publish idle_host ''/r'' False (path_join ''/r'' ''build'') ''a-1''
                (state_of [(''/r/temp/ta-lib-1-win64.zip'', data ''N''), (''/r/dist/ta-lib-1-win64.zip'', data ''O''),
              (''/r/build/a-1'', data ''N''), (''/r/dist/a-1'', data ''N''),
              (''/r/temp/ta-lib-git.tar.gz'', data ''N'')]) = (Inr r, s')
          \<and> display_package_results ((default_results ''.msi'' ++ r)(''built'' \<mapsto> PyBool True))
              = [''No changes for dist/a-1''])
   \<and> (\<exists>r s'. tgz_publish idle_host ''/r'' ''1''
                [''success'' \<mapsto> PyBool False, ''asset_file_name'' \<mapsto> PyStr (tgz_asset_file_name ''1'')]
                (state_of [(''/r/temp/ta-lib-1-win64.zip'', data ''N''), (''/r/dist/ta-lib-1-win64.zip'', data ''O''),
              (''/r/build/a-1'', data ''N''), (''/r/dist/a-1'', data ''N''),
              (''/r/temp/ta-lib-git.tar.gz'', data ''N'')]) = (Inr r, s')
          \<and> display_package_results ((default_results ''src.tar.gz'' ++ r)(''built'' \<mapsto> PyBool True))
              = [''Created dist/ta-lib-1-src.tar.gz''])"
proof -
  let ?f = "[(''/r/temp/ta-lib-1-win64.zip'', data ''N''), (''/r/dist/ta-lib-1-win64.zip'', data ''O''),
              (''/r/build/a-1'', data ''N''), (''/r/dist/a-1'', data ''N''),
              (''/r/temp/ta-lib-git.tar.gz'', data ''N'')]"
  have name: "\<not> startswith ''a-1'' ''/''" by simp
  have look: "lookup ?f ''/r/temp/ta-lib-1-win64.zip'' = Some (data ''N'')"
    "lookup ?f ''/r/build/a-1'' = Some (data ''N'')"
    "lookup ?f ''/r/temp/ta-lib-git.tar.gz'' = Some (data ''N'')"
    "lookup ?f ''/r/dist/ta-lib-1-win64.zip'' = Some (data ''O'')"
    "lookup ?f ''/r/dist/a-1'' = Some (data ''N'')"
    "lookup ?f ''/r/dist/ta-lib-1-src.tar.gz'' = None"
    by (simp_all add: lookup_def)
  note T = publish_decision[where h = idle_host and root = "''/r''" and version = "''1''"
      and asset = "''a-1''" and force = False and s = "state_of ?f" and c = "data ''N''", OF name]
  show ?thesis
    using T name look
    apply (simp only: path_eval startswith.simps append.simps list.simps char.inject if_False if_True
        simp_thms last.simps state_of_sel isfile_def compare_files_def)
    apply (simp add: host_eval)
    apply blast
    done
qed

text \<open>
  C1 as stated fails on the installer: the candidate equals the published file, the
  publish reports no change, and the candidate is not discarded: it is still in the build
  directory, as the whole state is what it was.
\<close>

theorem publish_decision_counterexample:
  "msi_publish idle_host ''/r'' False ''/r/build'' ''a-1.msi''
     (state_of [(''/r/build/a-1.msi'', data ''M''), (''/r/dist/a-1.msi'', data ''M'')])
   = (Inr [''success'' \<mapsto> PyBool True, ''asset_file_name'' \<mapsto> PyStr ''a-1.msi'',
           ''existed'' \<mapsto> PyBool True, ''copied'' \<mapsto> PyBool False],
      state_of [(''/r/build/a-1.msi'', data ''M''), (''/r/dist/a-1.msi'', data ''M'')])
   \<and> display_package_results
         ((default_results ''.msi''
            ++ [''success'' \<mapsto> PyBool True, ''asset_file_name'' \<mapsto> PyStr ''a-1.msi'',
                ''existed'' \<mapsto> PyBool True, ''copied'' \<mapsto> PyBool False])
          (''built'' \<mapsto> PyBool True))
       = [''No changes for dist/a-1.msi'']
   \<and> lookup (st_fs (state_of [(''/r/build/a-1.msi'', data ''M''),
                                (''/r/dist/a-1.msi'', data ''M'')])) ''/r/build/a-1.msi''
       = Some (data ''M'')"
proof -
  let ?f = "[(''/r/build/a-1.msi'', data ''M''), (''/r/dist/a-1.msi'', data ''M'')]"
  let ?r = "[''success'' \<mapsto> PyBool True, ''asset_file_name'' \<mapsto> PyStr ''a-1.msi'',
             ''existed'' \<mapsto> PyBool True, ''copied'' \<mapsto> PyBool False]"
  have p: "path_join ''/r'' ''build'' = ''/r/build''"
    "path_join ''/r/build'' ''a-1.msi'' = ''/r/build/a-1.msi''"
    "path_join (path_join ''/r'' ''dist'') ''a-1.msi'' = ''/r/dist/a-1.msi''"
    by (simp_all add: path_eval)
  have name: "\<not> startswith ''a-1.msi'' ''/''" by simp
  have c: "lookup (st_fs (state_of ?f)) (path_join (path_join ''/r'' ''build'') ''a-1.msi'')
       = Some (data ''M'')"
    by (simp add: lookup_def state_of_sel p)
  have d: "lookup (st_fs (state_of ?f)) (path_join (path_join ''/r'' ''dist'') ''a-1.msi'')
       = Some (data ''M'')"
    by (simp add: lookup_def state_of_sel p)
  have eq: "compare_msi_files idle_host (bytes (data ''M'')) (bytes (data ''M''))"
    by (simp add: idle_host_sel)
  have run: "msi_publish idle_host ''/r'' False ''/r/build'' ''a-1.msi'' (state_of ?f)
             = (Inr ?r, state_of ?f)"
    using msi_publish_run[OF name c, where h = idle_host and force = False] d eq
    by (simp add: p isfile_def compare_files_def state_of_sel lookup_def idle_host_sel)
  have disp: "display_package_results ((default_results ''.msi'' ++ ?r)(''built'' \<mapsto> PyBool True))
                = [''No changes for dist/a-1.msi'']"
    using display_outcome[of ?r "''a-1.msi''" True False "''.msi''"] by simp
  have stays: "lookup (st_fs (state_of ?f)) ''/r/build/a-1.msi'' = Some (data ''M'')"
    using c by (simp add: p)
  from run disp stays show ?thesis by (intro conjI)
qed

section \<open>Publishing twice, and publishing by force\<close>

lemma compare_same:
  "lookup (st_fs s) a = Some x \<Longrightarrow> lookup (st_fs s) b = Some y \<Longrightarrow>
   fst (compare_files cmp a b s) = Inr (cmp (bytes x) (bytes y))"
  by (simp add: compare_files_def)

lemma zip_published_after:
  fixes h root version result s
  defines "cand \<equiv> path_join (path_join root ''temp'') (zip_asset_file_name version)"
    and "dist \<equiv> path_join (path_join root ''dist'') (zip_asset_file_name version)"
  assumes c: "lookup (st_fs s) cand = Some c"
    and rf: "compare_zip_files h (bytes c) (bytes c)"
    and run: "zip_publish h root version result s = (Inr r1, s1)"
  shows "\<exists>d. lookup (st_fs s1) dist = Some d \<and> compare_zip_files h (bytes c) (bytes d)"
proof (cases "lookup (st_fs s) dist")
  case None
  then show ?thesis
    using run rf unfolding zip_publish_run[OF c[unfolded cand_def]] dist_def
    by (auto simp: isfile_def lookup_write_file)
next
  case (Some d)
  then show ?thesis
    using run rf compare_same[OF c Some, of "compare_zip_files h"]
    unfolding zip_publish_run[OF c[unfolded cand_def]] dist_def cand_def
    by (auto simp: isfile_def lookup_write_file split: if_splits)
qed

lemma zip_unchanged:
  fixes h root version result t
  defines "cand \<equiv> path_join (path_join root ''temp'') (zip_asset_file_name version)"
    and "dist \<equiv> path_join (path_join root ''dist'') (zip_asset_file_name version)"
  assumes c: "lookup (st_fs t) cand = Some c'"
    and d: "lookup (st_fs t) dist = Some d"
    and eq: "compare_zip_files h (bytes c') (bytes d)"
  shows "zip_publish h root version result t =
           (Inr (result(''success'' \<mapsto> PyBool True, ''existed'' \<mapsto> PyBool True,
                        ''copied'' \<mapsto> PyBool False)), t)"
  using d eq compare_same[OF c d, of "compare_zip_files h"]
  unfolding zip_publish_run[OF c[unfolded cand_def]] dist_def cand_def
  by (simp add: isfile_def)

lemma msi_published_after:
  fixes h root asset s
  defines "cand \<equiv> path_join (path_join root ''build'') asset"
    and "dist \<equiv> path_join (path_join root ''dist'') asset"
  assumes nm: "\<not> startswith asset ''/''"
    and c: "lookup (st_fs s) cand = Some c"
    and rf: "compare_msi_files h (bytes c) (bytes c)"
    and run: "msi_publish h root force (path_join root ''build'') asset s = (Inr r1, s1)"
  shows "\<exists>d. lookup (st_fs s1) dist = Some d \<and> compare_msi_files h (bytes c) (bytes d)"
proof (cases "lookup (st_fs s) dist")
  case None
  then show ?thesis
    using run rf unfolding msi_publish_run[OF nm c[unfolded cand_def]] dist_def
    by (auto simp: isfile_def lookup_write_file)
next
  case (Some d)
  then show ?thesis
    using run rf compare_same[OF c Some, of "compare_msi_files h"]
    unfolding msi_publish_run[OF nm c[unfolded cand_def]] dist_def cand_def
    by (auto simp: isfile_def lookup_write_file split: if_splits)
qed

lemma msi_unchanged:
  fixes h root asset t
  defines "cand \<equiv> path_join (path_join root ''build'') asset"
    and "dist \<equiv> path_join (path_join root ''dist'') asset"
  assumes nm: "\<not> startswith asset ''/''"
    and c: "lookup (st_fs t) cand = Some c'"
    and d: "lookup (st_fs t) dist = Some d"
    and eq: "compare_msi_files h (bytes c') (bytes d)"
  shows "msi_publish h root False (path_join root ''build'') asset t =
           (Inr [''success'' \<mapsto> PyBool True, ''asset_file_name'' \<mapsto> PyStr asset,
                 ''existed'' \<mapsto> PyBool True, ''copied'' \<mapsto> PyBool False], t)"
  using d eq compare_same[OF c d, of "compare_msi_files h"]
  unfolding msi_publish_run[OF nm c[unfolded cand_def]] dist_def cand_def
  by (simp add: isfile_def)

lemma deb_published_after:
  fixes h root asset s
  defines "cand \<equiv> os_path_join (os_path_join root ''build'') asset"
    and "dist \<equiv> os_path_join (os_path_join root ''dist'') asset"
  assumes c: "lookup (st_fs s) cand = Some c"
    and rf: "compare_deb_files h (bytes c) (bytes c)"
    and run: "deb_publish h (os_path_join root ''dist'') cand asset s = (Inr r1, s1)"
  shows "\<exists>d. lookup (st_fs s1) dist = Some d \<and> compare_deb_files h (bytes c) (bytes d)"
proof (cases "lookup (st_fs s) dist")
  case None
  then show ?thesis
    using run rf unfolding cand_def deb_publish_run[OF c[unfolded cand_def]] dist_def
    by (auto simp: isfile_def lookup_write_file)
next
  case (Some d)
  then show ?thesis
    using run rf compare_same[OF c Some, of "compare_deb_files h"]
    unfolding cand_def deb_publish_run[OF c[unfolded cand_def]] dist_def
    by (auto simp: isfile_def lookup_write_file split: if_splits)
qed

lemma deb_unchanged:
  fixes h root asset t
  defines "cand \<equiv> os_path_join (os_path_join root ''build'') asset"
    and "dist \<equiv> os_path_join (os_path_join root ''dist'') asset"
  assumes c: "lookup (st_fs t) cand = Some c'"
    and d: "lookup (st_fs t) dist = Some d"
    and eq: "compare_deb_files h (bytes c') (bytes d)"
  shows "deb_publish h (os_path_join root ''dist'') cand asset t =
           (Inr [''success'' \<mapsto> PyBool True, ''asset_file_name'' \<mapsto> PyStr asset,
                 ''existed'' \<mapsto> PyBool True, ''copied'' \<mapsto> PyBool False], t)"
  using d eq compare_same[OF c d, of "compare_deb_files h"]
  unfolding cand_def deb_publish_run[OF c[unfolded cand_def]] dist_def
  by (simp add: isfile_def)

lemma tgz_not_below:
  "\<not> below (os_path_join (os_path_join root ''temp'') ''ta-lib-git.tar.gz'')
           (os_path_join (os_path_join root ''dist'') (tgz_asset_file_name version))"
  "\<not> below (os_path_join root ''ta-lib-git.tar.gz'')
           (os_path_join (os_path_join root ''dist'') (tgz_asset_file_name version))"
  by (simp_all add: below_def join_lit os_path_join_def sep_dir_lit tgz_asset_file_name_def
          startswith_append)

lemma tgz_published_after:
  fixes h root version result s
  defines "cand \<equiv> os_path_join (os_path_join root ''temp'') ''ta-lib-git.tar.gz''"
    and "dist \<equiv> os_path_join (os_path_join root ''dist'') (tgz_asset_file_name version)"
  assumes c: "lookup (st_fs s) cand = Some c"
    and rf: "compare_tar_gz_files h (bytes c) (bytes c)"
    and run: "tgz_publish h root version result s = (Inr r1, s1)"
  shows "\<exists>d. lookup (st_fs s1) dist = Some d \<and> compare_tar_gz_files h (bytes c) (bytes d)"
proof (cases "lookup (st_fs s) dist")
  case None
  then show ?thesis
    using run rf tgz_not_below[of root version]
    unfolding tgz_publish_run[OF c[unfolded cand_def]] dist_def
    by (auto simp: isfile_def lookup_write_file lookup_force_delete)
next
  case (Some d)
  then show ?thesis
    using run rf compare_same[OF c Some, of "compare_tar_gz_files h"] tgz_not_below[of root version]
    unfolding tgz_publish_run[OF c[unfolded cand_def]] dist_def cand_def
    by (auto simp: isfile_def lookup_write_file lookup_force_delete split: if_splits)
qed

lemma tgz_unchanged:
  fixes h root version result t
  defines "cand \<equiv> os_path_join (os_path_join root ''temp'') ''ta-lib-git.tar.gz''"
    and "dist \<equiv> os_path_join (os_path_join root ''dist'') (tgz_asset_file_name version)"
  assumes c: "lookup (st_fs t) cand = Some c'"
    and d: "lookup (st_fs t) dist = Some d"
    and eq: "compare_tar_gz_files h (bytes c') (bytes d)"
  shows "tgz_publish h root version result t =
           (Inr (result(''success'' \<mapsto> PyBool True, ''existed'' \<mapsto> PyBool True,
                        ''copied'' \<mapsto> PyBool False)),
            t\<lparr>st_fs := force_delete cand
                         (force_delete (os_path_join root ''ta-lib-git.tar.gz'') (st_fs t))\<rparr>)"
  using d eq compare_same[OF c d, of "compare_tar_gz_files h"]
  unfolding tgz_publish_run[OF c[unfolded cand_def]] dist_def cand_def
  by (simp add: isfile_def)


text \<open>
  C4.  The first attempt publishes the candidate \<open>c\<close> from the state \<open>s\<close> and leaves the
  state \<open>s1\<close>.  The second attempt starts in a state \<open>t\<close> in which the candidate is staged
  again with the same bytes and the published file is as the first attempt left it (for
  the zip, whose candidate stays in \<^verbatim>\<open>temp\<close>, \<open>s1\<close> itself is such a state).  Then the second
  attempt reports \<open>copied = False\<close>, its summary line is "No changes", and the published
  file after it is the published file after the first attempt, bytes and modification
  time.  Force is off, and the comparison of each format is taken to find a file
  equivalent to itself.
\<close>

theorem publish_twice_unchanged:
  fixes h :: host and root version asset :: string and s s1 t :: state
  defines "zip_cand \<equiv> path_join (path_join root ''temp'') (zip_asset_file_name version)"
    and "zip_dist \<equiv> path_join (path_join root ''dist'') (zip_asset_file_name version)"
    and "zip_res \<equiv> [''success'' \<mapsto> PyBool False,
                     ''asset_file_name'' \<mapsto> PyStr (zip_asset_file_name version)]"
    and "msi_cand \<equiv> path_join (path_join root ''build'') asset"
    and "msi_dist \<equiv> path_join (path_join root ''dist'') asset"
    and "deb_cand \<equiv> os_path_join (os_path_join root ''build'') asset"
    and "deb_dist \<equiv> os_path_join (os_path_join root ''dist'') asset"
    and "tgz_cand \<equiv> os_path_join (os_path_join root ''temp'') ''ta-lib-git.tar.gz''"
    and "tgz_dist \<equiv> os_path_join (os_path_join root ''dist'') (tgz_asset_file_name version)"
    and "tgz_res \<equiv> [''success'' \<mapsto> PyBool False,
                     ''asset_file_name'' \<mapsto> PyStr (tgz_asset_file_name version)]"
  assumes name: "\<not> startswith asset ''/''"
    and same: "bytes c' = bytes c"
  shows "(lookup (st_fs s) zip_cand = Some c \<and> compare_zip_files h (bytes c) (bytes c)
            \<and> zip_publish h root version zip_res s = (Inr r1, s1) \<longrightarrow>
          (\<exists>r2. zip_publish h root version zip_res s1 = (Inr r2, s1)
                 \<and> r2 ''copied'' = Some (PyBool False))
          \<and> (lookup (st_fs t) zip_cand = Some c'
               \<and> lookup (st_fs t) zip_dist = lookup (st_fs s1) zip_dist \<longrightarrow>
              (\<exists>r2 s2. zip_publish h root version zip_res t = (Inr r2, s2)
                 \<and> r2 ''copied'' = Some (PyBool False)
                 \<and> display_package_results ((default_results ''.zip'' ++ r2)(''built'' \<mapsto> PyBool True))
                     = [''No changes for dist/'' @ zip_asset_file_name version]
                 \<and> lookup (st_fs s2) zip_dist = lookup (st_fs s1) zip_dist)))
       \<and> (lookup (st_fs s) msi_cand = Some c \<and> compare_msi_files h (bytes c) (bytes c)
            \<and> msi_publish h root False (path_join root ''build'') asset s = (Inr r1, s1)
            \<and> lookup (st_fs t) msi_cand = Some c'
            \<and> lookup (st_fs t) msi_dist = lookup (st_fs s1) msi_dist \<longrightarrow>
           (\<exists>r2 s2. msi_publish h root False (path_join root ''build'') asset t = (Inr r2, s2)
              \<and> r2 ''copied'' = Some (PyBool False)
              \<and> display_package_results ((default_results ''.msi'' ++ r2)(''built'' \<mapsto> PyBool True))
                  = [''No changes for dist/'' @ asset]
              \<and> lookup (st_fs s2) msi_dist = lookup (st_fs s1) msi_dist))
       \<and> (lookup (st_fs s) deb_cand = Some c \<and> compare_deb_files h (bytes c) (bytes c)
            \<and> deb_publish h (os_path_join root ''dist'') deb_cand asset s = (Inr r1, s1)
            \<and> lookup (st_fs t) deb_cand = Some c'
            \<and> lookup (st_fs t) deb_dist = lookup (st_fs s1) deb_dist \<longrightarrow>
           (\<exists>r2 s2. deb_publish h (os_path_join root ''dist'') deb_cand asset t = (Inr r2, s2)
              \<and> r2 ''copied'' = Some (PyBool False)
              \<and> display_package_results ((default_results ''.deb'' ++ r2)(''built'' \<mapsto> PyBool True))
                  = [''No changes for dist/'' @ asset]
              \<and> lookup (st_fs s2) deb_dist = lookup (st_fs s1) deb_dist))
       \<and> (lookup (st_fs s) tgz_cand = Some c \<and> compare_tar_gz_files h (bytes c) (bytes c)
            \<and> tgz_publish h root version tgz_res s = (Inr r1, s1)
            \<and> lookup (st_fs t) tgz_cand = Some c'
            \<and> lookup (st_fs t) tgz_dist = lookup (st_fs s1) tgz_dist \<longrightarrow>
           (\<exists>r2 s2. tgz_publish h root version tgz_res t = (Inr r2, s2)
              \<and> r2 ''copied'' = Some (PyBool False)
              \<and> display_package_results ((default_results ''src.tar.gz'' ++ r2)(''built'' \<mapsto> PyBool True))
                  = [''No changes for dist/'' @ tgz_asset_file_name version]
              \<and> lookup (st_fs s2) tgz_dist = lookup (st_fs s1) tgz_dist))"
proof (intro conjI impI; (elim conjE)?)
  assume c: "lookup (st_fs s) zip_cand = Some c"
    and rf: "compare_zip_files h (bytes c) (bytes c)"
    and run: "zip_publish h root version zip_res s = (Inr r1, s1)"
  obtain d where d: "lookup (st_fs s1) zip_dist = Some d" "compare_zip_files h (bytes c) (bytes d)"
    using zip_published_after[OF c[unfolded zip_cand_def] rf run] unfolding zip_dist_def by blast
  have ne: "zip_cand \<noteq> zip_dist"
    by (simp add: zip_cand_def zip_dist_def path_join_def join_lit os_path_join_def sep_dir_lit
        zip_asset_file_name_def)
  have c1: "lookup (st_fs s1) zip_cand = Some c"
    using run c ne unfolding zip_publish_run[OF c[unfolded zip_cand_def]] zip_cand_def zip_dist_def
    by (auto simp: lookup_write_file split: if_splits)
  show "\<exists>r2. zip_publish h root version zip_res s1 = (Inr r2, s1) \<and> r2 ''copied'' = Some (PyBool False)"
    using zip_unchanged[OF c1[unfolded zip_cand_def] d(1)[unfolded zip_dist_def] d(2), of zip_res]
    by simp
  assume ct: "lookup (st_fs t) zip_cand = Some c'"
    and dt: "lookup (st_fs t) zip_dist = lookup (st_fs s1) zip_dist"
  have run2: "zip_publish h root version zip_res t =
      (Inr (zip_res(''success'' \<mapsto> PyBool True, ''existed'' \<mapsto> PyBool True, ''copied'' \<mapsto> PyBool False)), t)"
  proof -
    have dt': "lookup (st_fs t) zip_dist = Some d" using dt d(1) by simp
    have eq: "compare_zip_files h (bytes c') (bytes d)" using d(2) same by simp
    show ?thesis
      by (rule zip_unchanged[OF ct[unfolded zip_cand_def] dt'[unfolded zip_dist_def] eq])
  qed
  have disp: "display_package_results ((default_results ''.zip'' ++
         (zip_res(''success'' \<mapsto> PyBool True, ''existed'' \<mapsto> PyBool True, ''copied'' \<mapsto> PyBool False)))
         (''built'' \<mapsto> PyBool True)) = [''No changes for dist/'' @ zip_asset_file_name version]"
    using display_outcome[of "zip_res(''success'' \<mapsto> PyBool True, ''existed'' \<mapsto> PyBool True,
        ''copied'' \<mapsto> PyBool False)" "zip_asset_file_name version" True False "''.zip''"]
    by (simp add: zip_res_def)
  show "\<exists>r2 s2. zip_publish h root version zip_res t = (Inr r2, s2)
                 \<and> r2 ''copied'' = Some (PyBool False)
                 \<and> display_package_results ((default_results ''.zip'' ++ r2)(''built'' \<mapsto> PyBool True))
                     = [''No changes for dist/'' @ zip_asset_file_name version]
                 \<and> lookup (st_fs s2) zip_dist = lookup (st_fs s1) zip_dist"
    using run2 disp dt by simp
next
  assume c: "lookup (st_fs s) msi_cand = Some c"
    and rf: "compare_msi_files h (bytes c) (bytes c)"
    and run: "msi_publish h root False (path_join root ''build'') asset s = (Inr r1, s1)"
    and ct: "lookup (st_fs t) msi_cand = Some c'"
    and dt: "lookup (st_fs t) msi_dist = lookup (st_fs s1) msi_dist"
  obtain d where d: "lookup (st_fs s1) msi_dist = Some d" "compare_msi_files h (bytes c) (bytes d)"
    using msi_published_after[OF name c[unfolded msi_cand_def] rf run] unfolding msi_dist_def by blast
  have run2: "msi_publish h root False (path_join root ''build'') asset t =
      (Inr [''success'' \<mapsto> PyBool True, ''asset_file_name'' \<mapsto> PyStr asset,
            ''existed'' \<mapsto> PyBool True, ''copied'' \<mapsto> PyBool False], t)"
  proof -
    have dt': "lookup (st_fs t) msi_dist = Some d" using dt d(1) by simp
    have eq: "compare_msi_files h (bytes c') (bytes d)" using d(2) same by simp
    show ?thesis
      by (rule msi_unchanged[OF name ct[unfolded msi_cand_def] dt'[unfolded msi_dist_def] eq])
  qed
  have disp: "display_package_results ((default_results ''.msi'' ++
         [''success'' \<mapsto> PyBool True, ''asset_file_name'' \<mapsto> PyStr asset,
          ''existed'' \<mapsto> PyBool True, ''copied'' \<mapsto> PyBool False])
         (''built'' \<mapsto> PyBool True)) = [''No changes for dist/'' @ asset]"
    using display_outcome[of "[''success'' \<mapsto> PyBool True, ''asset_file_name'' \<mapsto> PyStr asset,
        ''existed'' \<mapsto> PyBool True, ''copied'' \<mapsto> PyBool False]" asset True False "''.msi''"]
    by simp
  show "\<exists>r2 s2. msi_publish h root False (path_join root ''build'') asset t = (Inr r2, s2)
              \<and> r2 ''copied'' = Some (PyBool False)
              \<and> display_package_results ((default_results ''.msi'' ++ r2)(''built'' \<mapsto> PyBool True))
                  = [''No changes for dist/'' @ asset]
              \<and> lookup (st_fs s2) msi_dist = lookup (st_fs s1) msi_dist"
    using run2 disp dt by simp
next
  assume c: "lookup (st_fs s) deb_cand = Some c"
    and rf: "compare_deb_files h (bytes c) (bytes c)"
    and run: "deb_publish h (os_path_join root ''dist'') deb_cand asset s = (Inr r1, s1)"
    and ct: "lookup (st_fs t) deb_cand = Some c'"
    and dt: "lookup (st_fs t) deb_dist = lookup (st_fs s1) deb_dist"
  obtain d where d: "lookup (st_fs s1) deb_dist = Some d" "compare_deb_files h (bytes c) (bytes d)"
    using deb_published_after[OF c[unfolded deb_cand_def] rf run[unfolded deb_cand_def]]
    unfolding deb_dist_def by blast
  have run2: "deb_publish h (os_path_join root ''dist'') deb_cand asset t =
      (Inr [''success'' \<mapsto> PyBool True, ''asset_file_name'' \<mapsto> PyStr asset,
            ''existed'' \<mapsto> PyBool True, ''copied'' \<mapsto> PyBool False], t)"
  proof -
    have dt': "lookup (st_fs t) deb_dist = Some d" using dt d(1) by simp
    have eq: "compare_deb_files h (bytes c') (bytes d)" using d(2) same by simp
    show ?thesis unfolding deb_cand_def
      by (rule deb_unchanged[OF ct[unfolded deb_cand_def] dt'[unfolded deb_dist_def] eq])
  qed
  have disp: "display_package_results ((default_results ''.deb'' ++
         [''success'' \<mapsto> PyBool True, ''asset_file_name'' \<mapsto> PyStr asset,
          ''existed'' \<mapsto> PyBool True, ''copied'' \<mapsto> PyBool False])
         (''built'' \<mapsto> PyBool True)) = [''No changes for dist/'' @ asset]"
    using display_outcome[of "[''success'' \<mapsto> PyBool True, ''asset_file_name'' \<mapsto> PyStr asset,
        ''existed'' \<mapsto> PyBool True, ''copied'' \<mapsto> PyBool False]" asset True False "''.deb''"]
    by simp
  show "\<exists>r2 s2. deb_publish h (os_path_join root ''dist'') deb_cand asset t = (Inr r2, s2)
              \<and> r2 ''copied'' = Some (PyBool False)
              \<and> display_package_results ((default_results ''.deb'' ++ r2)(''built'' \<mapsto> PyBool True))
                  = [''No changes for dist/'' @ asset]
              \<and> lookup (st_fs s2) deb_dist = lookup (st_fs s1) deb_dist"
    using run2 disp dt by simp
next
  assume c: "lookup (st_fs s) tgz_cand = Some c"
    and rf: "compare_tar_gz_files h (bytes c) (bytes c)"
    and run: "tgz_publish h root version tgz_res s = (Inr r1, s1)"
    and ct: "lookup (st_fs t) tgz_cand = Some c'"
    and dt: "lookup (st_fs t) tgz_dist = lookup (st_fs s1) tgz_dist"
  obtain d where d: "lookup (st_fs s1) tgz_dist = Some d" "compare_tar_gz_files h (bytes c) (bytes d)"
    using tgz_published_after[OF c[unfolded tgz_cand_def] rf run] unfolding tgz_dist_def by blast
  have run2: "tgz_publish h root version tgz_res t =
      (Inr (tgz_res(''success'' \<mapsto> PyBool True, ''existed'' \<mapsto> PyBool True, ''copied'' \<mapsto> PyBool False)),
       t\<lparr>st_fs := force_delete tgz_cand
                    (force_delete (os_path_join root ''ta-lib-git.tar.gz'') (st_fs t))\<rparr>)"
  proof -
    have dt': "lookup (st_fs t) tgz_dist = Some d" using dt d(1) by simp
    have eq: "compare_tar_gz_files h (bytes c') (bytes d)" using d(2) same by simp
    show ?thesis unfolding tgz_cand_def
      by (rule tgz_unchanged[OF ct[unfolded tgz_cand_def] dt'[unfolded tgz_dist_def] eq])
  qed
  have disp: "display_package_results ((default_results ''src.tar.gz'' ++
         (tgz_res(''success'' \<mapsto> PyBool True, ''existed'' \<mapsto> PyBool True, ''copied'' \<mapsto> PyBool False)))
         (''built'' \<mapsto> PyBool True)) = [''No changes for dist/'' @ tgz_asset_file_name version]"
    using display_outcome[of "tgz_res(''success'' \<mapsto> PyBool True, ''existed'' \<mapsto> PyBool True,
        ''copied'' \<mapsto> PyBool False)" "tgz_asset_file_name version" True False "''src.tar.gz''"]
    by (simp add: tgz_res_def)
  have keep: "lookup (force_delete tgz_cand
                    (force_delete (os_path_join root ''ta-lib-git.tar.gz'') (st_fs t))) tgz_dist
              = lookup (st_fs t) tgz_dist"
    using tgz_not_below[of root version] unfolding tgz_cand_def tgz_dist_def
    by (simp add: lookup_force_delete)
  show "\<exists>r2 s2. tgz_publish h root version tgz_res t = (Inr r2, s2)
              \<and> r2 ''copied'' = Some (PyBool False)
              \<and> display_package_results ((default_results ''src.tar.gz'' ++ r2)(''built'' \<mapsto> PyBool True))
                  = [''No changes for dist/'' @ tgz_asset_file_name version]
              \<and> lookup (st_fs s2) tgz_dist = lookup (st_fs s1) tgz_dist"
    using run2 disp dt keep by simp
qed


text \<open>
  A run of the theorem: the zip is created in an empty \<^verbatim>\<open>dist\<close> under the time stamp 1,
  and the second attempt, in the state the first one left, keeps that file.
\<close>

theorem publish_twice_unchanged_witness:
  "\<not> startswith ''a'' ''/'' \<and> bytes (data ''N'') = bytes (data ''N'')
   \<and> lookup (st_fs (state_of [(''/r/temp/ta-lib-1-win64.zip'', data ''N'')]))
        ''/r/temp/ta-lib-1-win64.zip'' = Some (data ''N'')
   \<and> compare_zip_files idle_host (bytes (data ''N'')) (bytes (data ''N''))
   \<and> zip_publish idle_host ''/r'' ''1''
        [''success'' \<mapsto> PyBool False, ''asset_file_name'' \<mapsto> PyStr ''ta-lib-1-win64.zip'']
        (state_of [(''/r/temp/ta-lib-1-win64.zip'', data ''N'')])
      = (Inr [''success'' \<mapsto> PyBool True, ''asset_file_name'' \<mapsto> PyStr ''ta-lib-1-win64.zip'',
              ''existed'' \<mapsto> PyBool False, ''copied'' \<mapsto> PyBool True],
         \<lparr>st_fs = [(''/r/dist/ta-lib-1-win64.zip'', \<lparr>bytes = ''N'', mtime = 1\<rparr>),
                   (''/r/temp/ta-lib-1-win64.zip'', data ''N'')],
          st_cwd = ''/r'', st_out = [], st_now = 2\<rparr>)
   \<and> (\<exists>r2. zip_publish idle_host ''/r'' ''1''
              [''success'' \<mapsto> PyBool False, ''asset_file_name'' \<mapsto> PyStr ''ta-lib-1-win64.zip'']
              \<lparr>st_fs = [(''/r/dist/ta-lib-1-win64.zip'', \<lparr>bytes = ''N'', mtime = 1\<rparr>),
                        (''/r/temp/ta-lib-1-win64.zip'', data ''N'')],
               st_cwd = ''/r'', st_out = [], st_now = 2\<rparr>
            = (Inr r2, \<lparr>st_fs = [(''/r/dist/ta-lib-1-win64.zip'', \<lparr>bytes = ''N'', mtime = 1\<rparr>),
                                 (''/r/temp/ta-lib-1-win64.zip'', data ''N'')],
                        st_cwd = ''/r'', st_out = [], st_now = 2\<rparr>)
          \<and> r2 ''copied'' = Some (PyBool False))"
proof -
  let ?f = "[(''/r/temp/ta-lib-1-win64.zip'', data ''N'')]"
  let ?res = "[''success'' \<mapsto> PyBool False, ''asset_file_name'' \<mapsto> PyStr ''ta-lib-1-win64.zip'']"
  let ?r1 = "[''success'' \<mapsto> PyBool True, ''asset_file_name'' \<mapsto> PyStr ''ta-lib-1-win64.zip'',
              ''existed'' \<mapsto> PyBool False, ''copied'' \<mapsto> PyBool True]"
  let ?s1 = "\<lparr>st_fs = [(''/r/dist/ta-lib-1-win64.zip'', \<lparr>bytes = ''N'', mtime = 1\<rparr>),
                   (''/r/temp/ta-lib-1-win64.zip'', data ''N'')],
          st_cwd = ''/r'', st_out = [], st_now = 2\<rparr>"
  have name: "\<not> startswith ''a'' ''/''" by simp
  have same: "bytes (data ''N'') = bytes (data ''N'')" by simp
  have c: "lookup (st_fs (state_of ?f)) ''/r/temp/ta-lib-1-win64.zip'' = Some (data ''N'')"
    by (simp add: lookup_def state_of_sel)
  have rf: "compare_zip_files idle_host (bytes (data ''N'')) (bytes (data ''N''))"
    by (simp add: idle_host_sel)
  have run: "zip_publish idle_host ''/r'' ''1'' ?res (state_of ?f) = (Inr ?r1, ?s1)"
    by (simp add: zip_publish_def Let_def run_defs zip_replace_ops_def isfile_def lookup_def
        path_eval state_of_def write_file_def remove_file_def data_def fun_upd_twist)
  note T = publish_twice_unchanged[where h = idle_host and root = "''/r''" and version = "''1''"
      and asset = "''a''" and s = "state_of ?f" and c = "data ''N''" and c' = "data ''N''"
      and ?r1.0 = ?r1 and ?s1.0 = ?s1 and t = ?s1, OF name same]
  from T have "lookup (st_fs (state_of ?f)) ''/r/temp/ta-lib-1-win64.zip'' = Some (data ''N'')
     \<and> compare_zip_files idle_host (bytes (data ''N'')) (bytes (data ''N''))
     \<and> zip_publish idle_host ''/r'' ''1'' ?res (state_of ?f) = (Inr ?r1, ?s1) \<longrightarrow>
     (\<exists>r2. zip_publish idle_host ''/r'' ''1'' ?res ?s1 = (Inr r2, ?s1)
          \<and> r2 ''copied'' = Some (PyBool False))"
    by (simp add: path_eval)
  with c rf run have "\<exists>r2. zip_publish idle_host ''/r'' ''1'' ?res ?s1 = (Inr r2, ?s1)
          \<and> r2 ''copied'' = Some (PyBool False)"
    by blast
  with name same c rf run show ?thesis by blast
qed

text \<open>
  C5.  An installer is published and the candidate is equivalent to it.  With
  \<open>force = True\<close> the candidate still replaces the published file: \<open>copied\<close> and \<open>existed\<close>
  are both true and the summary line is "Updated".  The same call with \<open>force = False\<close>
  reports \<open>copied = False\<close>, prints "No changes" and leaves the state as it was.
\<close>

theorem force_overwrites_equivalent:
  fixes h :: host and root asset :: string and s :: state
  defines "cand \<equiv> path_join (path_join root ''build'') asset"
    and "dist \<equiv> path_join (path_join root ''dist'') asset"
  assumes name: "\<not> startswith asset ''/''"
    and c: "lookup (st_fs s) cand = Some c"
    and d: "lookup (st_fs s) dist = Some d"
    and eq: "compare_msi_files h (bytes c) (bytes d)"
  shows "(\<exists>r s'. msi_publish h root True (path_join root ''build'') asset s = (Inr r, s')
            \<and> r ''copied'' = Some (PyBool True) \<and> r ''existed'' = Some (PyBool True)
            \<and> display_package_results ((default_results ''.msi'' ++ r)(''built'' \<mapsto> PyBool True))
                = [''Updated dist/'' @ asset]
            \<and> lookup (st_fs s') dist = Some c)
       \<and> (\<exists>r. msi_publish h root False (path_join root ''build'') asset s = (Inr r, s)
            \<and> r ''copied'' = Some (PyBool False) \<and> r ''existed'' = Some (PyBool True)
            \<and> display_package_results ((default_results ''.msi'' ++ r)(''built'' \<mapsto> PyBool True))
                = [''No changes for dist/'' @ asset])"
proof
  have ex: "isfile (st_fs s) dist" using d by (simp add: isfile_def)
  let ?r = "[''success'' \<mapsto> PyBool True, ''asset_file_name'' \<mapsto> PyStr asset,
             ''existed'' \<mapsto> PyBool True, ''copied'' \<mapsto> PyBool True]"
  let ?s' = "s\<lparr>st_fs := write_file dist c (remove_file cand (remove_file dist (st_fs s)))\<rparr>"
  have run: "msi_publish h root True (path_join root ''build'') asset s = (Inr ?r, ?s')"
    using ex unfolding msi_publish_run[OF name c[unfolded cand_def]] cand_def dist_def by simp
  have disp: "display_package_results ((default_results ''.msi'' ++ ?r)(''built'' \<mapsto> PyBool True))
                = [''Updated dist/'' @ asset]"
    using display_outcome[of ?r asset True True "''.msi''"] by simp
  have "lookup (st_fs ?s') dist = Some c" by (simp add: lookup_write_file)
  with run disp
  show "\<exists>r s'. msi_publish h root True (path_join root ''build'') asset s = (Inr r, s')
            \<and> r ''copied'' = Some (PyBool True) \<and> r ''existed'' = Some (PyBool True)
            \<and> display_package_results ((default_results ''.msi'' ++ r)(''built'' \<mapsto> PyBool True))
                = [''Updated dist/'' @ asset]
            \<and> lookup (st_fs s') dist = Some c"
    by simp
next
  let ?r = "[''success'' \<mapsto> PyBool True, ''asset_file_name'' \<mapsto> PyStr asset,
             ''existed'' \<mapsto> PyBool True, ''copied'' \<mapsto> PyBool False]"
  have run: "msi_publish h root False (path_join root ''build'') asset s = (Inr ?r, s)"
    by (rule msi_unchanged[OF name c[unfolded cand_def] d[unfolded dist_def] eq])
  have disp: "display_package_results ((default_results ''.msi'' ++ ?r)(''built'' \<mapsto> PyBool True))
                = [''No changes for dist/'' @ asset]"
    using display_outcome[of ?r asset True False "''.msi''"] by simp
  from run disp
  show "\<exists>r. msi_publish h root False (path_join root ''build'') asset s = (Inr r, s)
            \<and> r ''copied'' = Some (PyBool False) \<and> r ''existed'' = Some (PyBool True)
            \<and> display_package_results ((default_results ''.msi'' ++ r)(''built'' \<mapsto> PyBool True))
                = [''No changes for dist/'' @ asset]"
    by simp
qed

text \<open>
  The theorem on two installers with the same bytes: after the forced publish the
  candidate, with its own time stamp 5, is the published file.
\<close>

theorem force_overwrites_equivalent_witness:
  "(\<not> startswith ''a-1.msi'' ''/''
    \<and> lookup (st_fs (state_of [(''/r/build/a-1.msi'', \<lparr>bytes = ''M'', mtime = 5\<rparr>),
                               (''/r/dist/a-1.msi'', data ''M'')])) ''/r/build/a-1.msi''
       = Some \<lparr>bytes = ''M'', mtime = 5\<rparr>
    \<and> lookup (st_fs (state_of [(''/r/build/a-1.msi'', \<lparr>bytes = ''M'', mtime = 5\<rparr>),
                               (''/r/dist/a-1.msi'', data ''M'')])) ''/r/dist/a-1.msi''
       = Some (data ''M'')
    \<and> compare_msi_files idle_host (bytes \<lparr>bytes = ''M'', mtime = 5\<rparr>) (bytes (data ''M'')))
   \<and> ((\<exists>r s'. msi_publish idle_host ''/r'' True ''/r/build'' ''a-1.msi''
                 (state_of [(''/r/build/a-1.msi'', \<lparr>bytes = ''M'', mtime = 5\<rparr>),
                            (''/r/dist/a-1.msi'', data ''M'')]) = (Inr r, s')
          \<and> r ''copied'' = Some (PyBool True) \<and> r ''existed'' = Some (PyBool True)
          \<and> display_package_results ((default_results ''.msi'' ++ r)(''built'' \<mapsto> PyBool True))
              = [''Updated dist/a-1.msi'']
          \<and> lookup (st_fs s') ''/r/dist/a-1.msi'' = Some \<lparr>bytes = ''M'', mtime = 5\<rparr>)
     \<and> (\<exists>r. msi_publish idle_host ''/r'' False ''/r/build'' ''a-1.msi''
                 (state_of [(''/r/build/a-1.msi'', \<lparr>bytes = ''M'', mtime = 5\<rparr>),
                            (''/r/dist/a-1.msi'', data ''M'')])
             = (Inr r, state_of [(''/r/build/a-1.msi'', \<lparr>bytes = ''M'', mtime = 5\<rparr>),
                                 (''/r/dist/a-1.msi'', data ''M'')])
          \<and> r ''copied'' = Some (PyBool False) \<and> r ''existed'' = Some (PyBool True)
          \<and> display_package_results ((default_results ''.msi'' ++ r)(''built'' \<mapsto> PyBool True))
              = [''No changes for dist/a-1.msi'']))"
proof
  let ?f = "[(''/r/build/a-1.msi'', \<lparr>bytes = ''M'', mtime = 5\<rparr>), (''/r/dist/a-1.msi'', data ''M'')]"
  have p: "path_join ''/r'' ''build'' = ''/r/build''"
    "path_join ''/r/build'' ''a-1.msi'' = ''/r/build/a-1.msi''"
    "path_join (path_join ''/r'' ''dist'') ''a-1.msi'' = ''/r/dist/a-1.msi''"
    by (simp_all add: path_eval)
  have name: "\<not> startswith ''a-1.msi'' ''/''" by simp
  have c: "lookup (st_fs (state_of ?f)) (path_join (path_join ''/r'' ''build'') ''a-1.msi'')
       = Some \<lparr>bytes = ''M'', mtime = 5\<rparr>"
    by (simp add: lookup_def state_of_sel p)
  have d: "lookup (st_fs (state_of ?f)) (path_join (path_join ''/r'' ''dist'') ''a-1.msi'')
       = Some (data ''M'')"
    by (simp add: lookup_def state_of_sel p)
  have eq: "compare_msi_files idle_host (bytes \<lparr>bytes = ''M'', mtime = 5\<rparr>) (bytes (data ''M''))"
    by (simp add: idle_host_sel data_def)
  show "\<not> startswith ''a-1.msi'' ''/''
    \<and> lookup (st_fs (state_of ?f)) ''/r/build/a-1.msi'' = Some \<lparr>bytes = ''M'', mtime = 5\<rparr>
    \<and> lookup (st_fs (state_of ?f)) ''/r/dist/a-1.msi'' = Some (data ''M'')
    \<and> compare_msi_files idle_host (bytes \<lparr>bytes = ''M'', mtime = 5\<rparr>) (bytes (data ''M''))"
    using name c d eq by (simp add: p)
  show "(\<exists>r s'. msi_publish idle_host ''/r'' True ''/r/build'' ''a-1.msi'' (state_of ?f) = (Inr r, s')
          \<and> r ''copied'' = Some (PyBool True) \<and> r ''existed'' = Some (PyBool True)
          \<and> display_package_results ((default_results ''.msi'' ++ r)(''built'' \<mapsto> PyBool True))
              = [''Updated dist/a-1.msi'']
          \<and> lookup (st_fs s') ''/r/dist/a-1.msi'' = Some \<lparr>bytes = ''M'', mtime = 5\<rparr>)
     \<and> (\<exists>r. msi_publish idle_host ''/r'' False ''/r/build'' ''a-1.msi'' (state_of ?f)
             = (Inr r, state_of ?f)
          \<and> r ''copied'' = Some (PyBool False) \<and> r ''existed'' = Some (PyBool True)
          \<and> display_package_results ((default_results ''.msi'' ++ r)(''built'' \<mapsto> PyBool True))
              = [''No changes for dist/a-1.msi''])"
    using force_overwrites_equivalent[OF name c d eq] by (simp add: p)
qed

section \<open>The replace step, cut short\<close>

lemma take_two: "take k [a, b] = (if k = 0 then [] else if k = 1 then [a] else [a, b])"
  by (cases k; simp; cases "k - 1"; simp)

lemma take_one: "take k [a] = (if k = 0 then [] else [a])"
  by (cases k) simp_all

text \<open>
  C2, as the script has it.  The replace step of the Debian package and of the tarball is
  one \<^verbatim>\<open>os.rename\<close>: cut short after any number \<open>k\<close> of its calls, the published path holds
  the old file (\<open>k = 0\<close>) or the candidate.  The replace step of the installer is
  \<^verbatim>\<open>os.remove\<close> of the old file, if there is one, and then \<^verbatim>\<open>os.rename\<close>: before the first
  call the published path holds the old file, after the last call the candidate, and in
  between, which happens when an old file was there and only the remove was done, no
  file at all.  In every case the completed publish is the run of all the calls.
\<close>

theorem replace_interrupted:
  assumes c: "lookup f cand = Some c" and ne: "cand \<noteq> dist"
  shows "lookup (interrupted k (deb_replace_ops cand dist) f) dist
           = (if k = 0 then lookup f dist else Some c)
       \<and> lookup (interrupted k (tgz_replace_ops cand dist) f) dist
           = (if k = 0 then lookup f dist else Some c)
       \<and> lookup (interrupted k (msi_replace_ops f cand dist) f) dist
           = (if k = 0 then lookup f dist
              else if k < length (msi_replace_ops f cand dist) then None
              else Some c)
       \<and> length (msi_replace_ops f cand dist) = (if isfile f dist then 2 else 1)
       \<and> snd (apply_ops ops s) = s\<lparr>st_fs := interrupted (length ops) ops (st_fs s)\<rparr>"
proof (intro conjI)
  show "lookup (interrupted k (deb_replace_ops cand dist) f) dist
           = (if k = 0 then lookup f dist else Some c)"
    using c by (simp add: interrupted_def deb_replace_ops_def take_one lookup_write_file)
  show "lookup (interrupted k (tgz_replace_ops cand dist) f) dist
           = (if k = 0 then lookup f dist else Some c)"
    using c by (simp add: interrupted_def tgz_replace_ops_def take_one lookup_write_file)
  show "lookup (interrupted k (msi_replace_ops f cand dist) f) dist
           = (if k = 0 then lookup f dist
              else if k < length (msi_replace_ops f cand dist) then None
              else Some c)"
    using c ne
    by (auto simp: interrupted_def msi_replace_ops_def take_one take_two lookup_write_file
        lookup_remove_file)
  show "length (msi_replace_ops f cand dist) = (if isfile f dist then 2 else 1)"
    by (simp add: msi_replace_ops_def)
  show "snd (apply_ops ops s) = s\<lparr>st_fs := interrupted (length ops) ops (st_fs s)\<rparr>"
    by (simp add: apply_ops_def interrupted_def split: prod.splits option.splits)
qed

text \<open>
  The theorem on an old and a new installer: the single rename of the Debian package and
  the completed two calls of the installer both leave the new file.
\<close>

theorem replace_interrupted_witness:
  "lookup [(''/r/build/a.msi'', data ''new''), (''/r/dist/a.msi'', data ''old'')] ''/r/build/a.msi''
     = Some (data ''new'')
   \<and> ''/r/build/a.msi'' \<noteq> ''/r/dist/a.msi''
   \<and> lookup (interrupted 1 (deb_replace_ops ''/r/build/a.msi'' ''/r/dist/a.msi'')
        [(''/r/build/a.msi'', data ''new''), (''/r/dist/a.msi'', data ''old'')]) ''/r/dist/a.msi''
      = Some (data ''new'')
   \<and> lookup (interrupted 2 (msi_replace_ops
                 [(''/r/build/a.msi'', data ''new''), (''/r/dist/a.msi'', data ''old'')]
                 ''/r/build/a.msi'' ''/r/dist/a.msi'')
        [(''/r/build/a.msi'', data ''new''), (''/r/dist/a.msi'', data ''old'')]) ''/r/dist/a.msi''
      = Some (data ''new'')"
proof -
  let ?f = "[(''/r/build/a.msi'', data ''new''), (''/r/dist/a.msi'', data ''old'')]"
  have c: "lookup ?f ''/r/build/a.msi'' = Some (data ''new'')" by (simp add: lookup_def)
  have ne: "''/r/build/a.msi'' \<noteq> ''/r/dist/a.msi''" by simp
  have ex: "isfile ?f ''/r/dist/a.msi''" by (simp add: isfile_def lookup_def)
  show ?thesis
    using replace_interrupted[OF c ne, of 1] replace_interrupted[OF c ne, of 2] c ne ex
    by simp
qed

text \<open>
  C2 as stated fails on the installer: an old and a new installer are there, the replace
  step is cut short after its first call, and the published path holds neither of them.
  The completed publish of this very state is the run of both calls.
\<close>

theorem replace_interrupted_counterexample:
  "lookup [(''/r/build/a.msi'', data ''new''), (''/r/dist/a.msi'', data ''old'')] ''/r/dist/a.msi''
     = Some (data ''old'')
   \<and> lookup [(''/r/build/a.msi'', data ''new''), (''/r/dist/a.msi'', data ''old'')] ''/r/build/a.msi''
     = Some (data ''new'')
   \<and> msi_replace_ops [(''/r/build/a.msi'', data ''new''), (''/r/dist/a.msi'', data ''old'')]
        ''/r/build/a.msi'' ''/r/dist/a.msi''
      = [Op_remove ''/r/dist/a.msi'', Op_rename ''/r/build/a.msi'' ''/r/dist/a.msi'']
   \<and> lookup (interrupted 1 (msi_replace_ops
                 [(''/r/build/a.msi'', data ''new''), (''/r/dist/a.msi'', data ''old'')]
                 ''/r/build/a.msi'' ''/r/dist/a.msi'')
        [(''/r/build/a.msi'', data ''new''), (''/r/dist/a.msi'', data ''old'')]) ''/r/dist/a.msi''
      = None
   \<and> msi_publish idle_host ''/r'' False ''/r/build'' ''a.msi''
        (state_of [(''/r/build/a.msi'', data ''new''), (''/r/dist/a.msi'', data ''old'')])
      = (Inr [''success'' \<mapsto> PyBool True, ''asset_file_name'' \<mapsto> PyStr ''a.msi'',
              ''existed'' \<mapsto> PyBool True, ''copied'' \<mapsto> PyBool True],
         state_of (interrupted 2 (msi_replace_ops
                 [(''/r/build/a.msi'', data ''new''), (''/r/dist/a.msi'', data ''old'')]
                 ''/r/build/a.msi'' ''/r/dist/a.msi'')
              [(''/r/build/a.msi'', data ''new''), (''/r/dist/a.msi'', data ''old'')]))"
  by (simp add: lookup_def interrupted_def msi_replace_ops_def isfile_def remove_file_def
      write_file_def data_def msi_publish_def Let_def run_defs path_eval state_of_def idle_host_sel)

section \<open>The Linux run on a RedHat host\<close>

lemma package_deb_not_debian:
  "\<not> is_debian_based h \<Longrightarrow>
   package_deb h root version pwd s =
     (Inr [''success'' \<mapsto> PyBool False],
      print ''Error: Debian-based system required for .deb packaging.'' s)"
  by (simp add: package_deb_def)

lemma record_results_failed:
  "record_results (default_results n) (Some [''success'' \<mapsto> PyBool False]) ending s =
     (Inl (SystemExit 1), print (''Error: Packaging dist/'' @ n @ '' failed'' @ ending) s)"
  by (simp add: record_results_def dict_update_def dict_item_def default_results_def bindM_def
      ret_def throw_def sys_exit_def truthy_def str_of_def map_add_def Let_def)

lemma linux_rpm_step_redhat:
  assumes "is_redhat_based h" "\<not> is_debian_based h" "is_rpmbuild_installed h"
  shows "linux_rpm_step h root version pwd s =
     (Inl (SystemExit 1),
      s\<lparr>st_out := st_out s @ [''Error: Debian-based system required for .deb packaging.'',
                              ''Error: Packaging dist/.rpm failed.'']\<rparr>)"
  using assms
  by (simp add: linux_rpm_step_def bindM_def package_deb_not_debian record_results_failed print_def)

text \<open>
  C8.  On a host that is RedHat-based, not Debian-based and has rpmbuild, the RPM step of
  \<^verbatim>\<open>package_all_linux\<close> is a call of \<^verbatim>\<open>package_deb\<close>: it prints the diagnostic of
  \<^verbatim>\<open>package_deb\<close> about the missing Debian system, returns without success, and the step
  leaves with \<^verbatim>\<open>sys.exit(1)\<close> after "Error: Packaging dist/.rpm failed.", touching no file.
  So the run never completes: it ends in the tarball step, if that one fails, or with exit
  code 1 in the RPM step.  On a host that is not Ubuntu either (Ubuntu is Debian-based)
  the tarball step does nothing and the whole run is exactly this exit, with the file
  system as it was.  \<^verbatim>\<open>package_rpm\<close>, which the orchestrator does not call, returns without
  success whatever it is given.
\<close>

theorem redhat_run_aborts:
  assumes rh: "is_redhat_based h" and nd: "\<not> is_debian_based h" and rb: "is_rpmbuild_installed h"
  shows "package_all_linux h root version pwd s =
           (case linux_src_step h root version pwd (s\<lparr>st_cwd := root\<rparr>) of
              (Inl e, s1) \<Rightarrow> (Inl e, s1)
            | (Inr r, s1) \<Rightarrow>
                (Inl (SystemExit 1),
                 s1\<lparr>st_out := st_out s1 @
                       [''Error: Debian-based system required for .deb packaging.'',
                        ''Error: Packaging dist/.rpm failed.'']\<rparr>))
       \<and> (\<not> is_ubuntu h \<longrightarrow>
            package_all_linux h root version pwd s =
              (Inl (SystemExit 1),
               s\<lparr>st_cwd := root,
                 st_out := st_out s @
                   [''Error: Debian-based system required for .deb packaging.'',
                    ''Error: Packaging dist/.rpm failed.'']\<rparr>))
       \<and> package_deb h root version pwd s =
            (Inr [''success'' \<mapsto> PyBool False],
             print ''Error: Debian-based system required for .deb packaging.'' s)
       \<and> package_rpm h root version pwd s = (Inr [''success'' \<mapsto> PyBool False], s)"
proof (intro conjI impI)
  show 1: "package_all_linux h root version pwd s =
           (case linux_src_step h root version pwd (s\<lparr>st_cwd := root\<rparr>) of
              (Inl e, s1) \<Rightarrow> (Inl e, s1)
            | (Inr r, s1) \<Rightarrow>
                (Inl (SystemExit 1),
                 s1\<lparr>st_out := st_out s1 @
                       [''Error: Debian-based system required for .deb packaging.'',
                        ''Error: Packaging dist/.rpm failed.'']\<rparr>))"
    by (simp add: package_all_linux_def bindM_def linux_rpm_step_redhat[OF rh nd rb]
        split: prod.splits sum.splits)
  show "package_all_linux h root version pwd s =
              (Inl (SystemExit 1),
               s\<lparr>st_cwd := root,
                 st_out := st_out s @
                   [''Error: Debian-based system required for .deb packaging.'',
                    ''Error: Packaging dist/.rpm failed.'']\<rparr>)"
    if "\<not> is_ubuntu h"
    using that unfolding 1 by (simp add: linux_src_step_def ret_def)
  show "package_deb h root version pwd s =
            (Inr [''success'' \<mapsto> PyBool False],
             print ''Error: Debian-based system required for .deb packaging.'' s)"
    by (rule package_deb_not_debian[OF nd])
  show "package_rpm h root version pwd s = (Inr [''success'' \<mapsto> PyBool False], s)"
    by (simp add: package_rpm_def ret_def)
qed

lemma redhat_host_sel:
  "is_redhat_based redhat_host" "\<not> is_debian_based redhat_host" "is_rpmbuild_installed redhat_host"
  "\<not> is_ubuntu redhat_host"
  by (simp_all add: redhat_host_def idle_host_def)

text \<open>
  The theorem on the RedHat sample host: a published tarball is in \<^verbatim>\<open>dist\<close> before the run
  and nothing else after it.
\<close>

theorem redhat_run_aborts_witness:
  "is_redhat_based redhat_host \<and> \<not> is_debian_based redhat_host
   \<and> is_rpmbuild_installed redhat_host \<and> \<not> is_ubuntu redhat_host
   \<and> package_all_linux redhat_host ''/r'' ''1'' ''''
        (state_of [(''/r/dist/ta-lib-1-src.tar.gz'', data ''T'')])
      = (Inl (SystemExit 1),
         \<lparr>st_fs = [(''/r/dist/ta-lib-1-src.tar.gz'', data ''T'')], st_cwd = ''/r'',
          st_out = [''Error: Debian-based system required for .deb packaging.'',
                    ''Error: Packaging dist/.rpm failed.''],
          st_now = 1\<rparr>)"
proof -
  note T = redhat_run_aborts[OF redhat_host_sel(1,2,3), of "''/r''" "''1''" "''''"
      "state_of [(''/r/dist/ta-lib-1-src.tar.gz'', data ''T'')]"]
  from T have "\<not> is_ubuntu redhat_host \<longrightarrow>
      package_all_linux redhat_host ''/r'' ''1'' ''''
        (state_of [(''/r/dist/ta-lib-1-src.tar.gz'', data ''T'')])
      = (Inl (SystemExit 1),
         (state_of [(''/r/dist/ta-lib-1-src.tar.gz'', data ''T'')])
           \<lparr>st_cwd := ''/r'',
            st_out := st_out (state_of [(''/r/dist/ta-lib-1-src.tar.gz'', data ''T'')]) @
                   [''Error: Debian-based system required for .deb packaging.'',
                    ''Error: Packaging dist/.rpm failed.'']\<rparr>)"
    by (rule conjunct1[OF conjunct2])
  then show ?thesis
    using redhat_host_sel by (simp add: state_of_def)
qed

section \<open>A zip tool that fails\<close>

text \<open>
  C9.  The staging of the package tree has succeeded and left the state \<open>s1\<close>, and the zip
  tool fails there.  Then \<^verbatim>\<open>package_windows_zip\<close> prints "Error creating zip file" and
  returns \<open>None\<close>, not a dictionary, and \<^verbatim>\<open>package_all_windows\<close>, which hands that value to
  \<^verbatim>\<open>zip_results.update\<close>, ends with \<open>TypeError\<close>: it is not the \<^verbatim>\<open>sys.exit(1)\<close> of the
  failure branch, and the last line printed is the one of \<^verbatim>\<open>package_windows_zip\<close>, not
  "Error: Packaging dist/... failed".
\<close>

theorem zip_failure_type_error:
  assumes stage: "zip_stage h root version (s\<lparr>st_fs := zip_cleanup root version (st_fs s)\<rparr>)
                    = (Inr (), s1)"
    and fail: "create_zip_file h
                 (path_join (path_join root ''temp'') (''ta-lib-'' @ version @ ''-win64''))
                 (path_join (path_join root ''temp'') (zip_asset_file_name version)) (st_fs s1)
               = None"
  shows "package_windows_zip h root version s = (Inr None, print ''Error creating zip file: '' s1)
       \<and> package_all_windows h root version s
           = (Inl TypeError, print ''Error creating zip file: '' s1)
       \<and> TypeError \<noteq> SystemExit 1
       \<and> st_out (print ''Error creating zip file: '' s1) = st_out s1 @ [''Error creating zip file: '']"
proof -
  have z: "package_windows_zip h root version s = (Inr None, print ''Error creating zip file: '' s1)"
    using stage fail by (simp add: package_windows_zip_def Let_def bindM_def)
  have "package_all_windows h root version s
           = (Inl TypeError, print ''Error creating zip file: '' s1)"
    by (simp add: package_all_windows_def windows_zip_step_def bindM_def z record_results_def
        dict_update_def throw_def)
  with z show ?thesis by (simp add: print_def)
qed

text \<open>
  The theorem on a host that builds the libraries and whose zip tool fails: the staging
  goes through, and the run ends with \<open>TypeError\<close>.
\<close>

theorem zip_failure_type_error_witness:
  "zip_stage (build_host\<lparr>create_zip_file := (\<lambda>d z f. None)\<rparr>) ''/r'' ''1''
     ((state_of [(''/r/CMakeLists.txt'', data ''C'')])
        \<lparr>st_fs := zip_cleanup ''/r'' ''1'' (st_fs (state_of [(''/r/CMakeLists.txt'', data ''C'')]))\<rparr>)
   = (Inr (),
      \<lparr>st_fs =
         [(''/r/temp/ta-lib-1-win64/VERSION.txt'', \<lparr>bytes = ''1'', mtime = 4\<rparr>),
          (''/r/temp/ta-lib-1-win64/lib/ta-lib-static.lib'', \<lparr>bytes = ''static'', mtime = 3\<rparr>),
          (''/r/temp/ta-lib-1-win64/lib/ta-lib.lib'', \<lparr>bytes = ''lib'', mtime = 2\<rparr>),
          (''/r/temp/ta-lib-1-win64/lib/ta-lib.dll'', \<lparr>bytes = ''dll'', mtime = 1\<rparr>),
          (''/r/build/ta-lib.dll'', \<lparr>bytes = ''dll'', mtime = 0\<rparr>),
          (''/r/build/ta-lib.lib'', \<lparr>bytes = ''lib'', mtime = 0\<rparr>),
          (''/r/build/ta-lib-static.lib'', \<lparr>bytes = ''static'', mtime = 0\<rparr>),
          (''/r/CMakeLists.txt'', \<lparr>bytes = ''C'', mtime = 0\<rparr>)],
       st_cwd = ''/r'',
       st_out = [''CMake command: [cmake] [-G] [Ninja] [-DBUILD_DEV_TOOLS=OFF] [..]''],
       st_now = 5\<rparr>)
   \<and> fst (package_all_windows (build_host\<lparr>create_zip_file := (\<lambda>d z f. None)\<rparr>) ''/r'' ''1''
           (state_of [(''/r/CMakeLists.txt'', data ''C'')])) = Inl TypeError
   \<and> st_out (snd (package_all_windows (build_host\<lparr>create_zip_file := (\<lambda>d z f. None)\<rparr>) ''/r'' ''1''
           (state_of [(''/r/CMakeLists.txt'', data ''C'')])))
      = [''CMake command: [cmake] [-G] [Ninja] [-DBUILD_DEV_TOOLS=OFF] [..]'',
         ''Error creating zip file: '']"
proof -
  let ?h = "build_host\<lparr>create_zip_file := (\<lambda>d z f. None)\<rparr>"
  let ?s1 = "\<lparr>st_fs =
         [(''/r/temp/ta-lib-1-win64/VERSION.txt'', \<lparr>bytes = ''1'', mtime = 4\<rparr>),
          (''/r/temp/ta-lib-1-win64/lib/ta-lib-static.lib'', \<lparr>bytes = ''static'', mtime = 3\<rparr>),
          (''/r/temp/ta-lib-1-win64/lib/ta-lib.lib'', \<lparr>bytes = ''lib'', mtime = 2\<rparr>),
          (''/r/temp/ta-lib-1-win64/lib/ta-lib.dll'', \<lparr>bytes = ''dll'', mtime = 1\<rparr>),
          (''/r/build/ta-lib.dll'', \<lparr>bytes = ''dll'', mtime = 0\<rparr>),
          (''/r/build/ta-lib.lib'', \<lparr>bytes = ''lib'', mtime = 0\<rparr>),
          (''/r/build/ta-lib-static.lib'', \<lparr>bytes = ''static'', mtime = 0\<rparr>),
          (''/r/CMakeLists.txt'', \<lparr>bytes = ''C'', mtime = 0\<rparr>)],
       st_cwd = ''/r'',
       st_out = [''CMake command: [cmake] [-G] [Ninja] [-DBUILD_DEV_TOOLS=OFF] [..]''],
       st_now = 5\<rparr>"
  have stage: "zip_stage ?h ''/r'' ''1''
     ((state_of [(''/r/CMakeLists.txt'', data ''C'')])
        \<lparr>st_fs := zip_cleanup ''/r'' ''1'' (st_fs (state_of [(''/r/CMakeLists.txt'', data ''C'')]))\<rparr>)
   = (Inr (), ?s1)"
    by code_simp
  have fail: "create_zip_file ?h
                 (path_join (path_join ''/r'' ''temp'') (''ta-lib-'' @ ''1'' @ ''-win64''))
                 (path_join (path_join ''/r'' ''temp'') (zip_asset_file_name ''1'')) (st_fs ?s1)
               = None"
    by simp
  from zip_failure_type_error[OF stage fail] stage show ?thesis
    by (simp add: print_def)
qed

section \<open>The Windows run\<close>

lemma record_results_ok:
  "r ''success'' = Some (PyBool True) \<Longrightarrow>
   record_results (default_results n) (Some r) e s =
     (Inr ((default_results n ++ r)(''built'' \<mapsto> PyBool True)), s)"
  by (simp add: record_results_def dict_update_def dict_item_def bindM_def ret_def Let_def
      truthy_def map_add_def)

lemma zip_publish_success:
  "zip_publish h root version res s = (Inr r, s') \<Longrightarrow>
   r ''success'' = Some (PyBool True) \<and> (\<exists>c. r ''copied'' = Some (PyBool c))"
  by (auto simp: zip_publish_def Let_def bindM_def ret_def
      split: if_splits prod.splits sum.splits)

lemma package_windows_zip_success:
  "package_windows_zip h root version s = (Inr (Some r), s') \<Longrightarrow>
   r ''success'' = Some (PyBool True) \<and> (\<exists>c. r ''copied'' = Some (PyBool c))"
  by (auto simp: package_windows_zip_def Let_def bindM_def ret_def print_def
      dest!: zip_publish_success split: prod.splits sum.splits option.splits)

lemma do_cmake_reconfigure_dir:
  "do_cmake_reconfigure h root opts s = (Inr bd, s') \<Longrightarrow> bd = path_join root ''build''"
  by (auto simp: do_cmake_reconfigure_def Let_def bindM_def finally_chdir_def sys_exit_def
      os_makedirs_def split: if_splits prod.splits sum.splits option.splits)

lemma msi_build_dir:
  "msi_build h root s = (Inr (Inr bd), s') \<Longrightarrow> bd = path_join root ''build''"
  by (auto simp: msi_build_def Let_def bindM_def ret_def
      dest!: do_cmake_reconfigure_dir split: if_splits prod.splits sum.splits)

lemma basename_no_slash: "\<not> startswith (basename p) ''/''"
proof -
  have "\<forall>c \<in> set (basename p). c \<noteq> CHR ''/''"
    by (auto simp: basename_def dest: set_takeWhileD)
  then show ?thesis by (cases "basename p") auto
qed

lemma find_asset_shape:
  "find_asset_with_ext bd version ext s = (Inr a, s') \<Longrightarrow> s' = s \<and> \<not> startswith a ''/''"
  by (auto simp: find_asset_with_ext_def Let_def sys_exit_def basename_no_slash split: if_splits)


text \<open>
  C10.  On a Windows run whose zip step returned the dictionary \<open>r\<close> with the flag
  \<open>copied = c\<close>, on a host with WiX, the installer is packaged with \<open>force = c\<close>.
  When its build has left the candidate \<open>m\<close>, the installer is published with that
  flag: its own \<open>copied\<close> is true exactly if \<open>c\<close> holds, or no installer was published, or
  the comparison reports a difference.  So after a zip that was copied the candidate
  replaces the published installer whatever the comparison would say, and after a zip
  without change the installer goes through the usual comparison.  The run then
  completes with the summary of both results.
\<close>

theorem zip_copy_forces_msi:
  fixes h :: host and root version :: string and s s1 s2 s3 :: state
  defines "dist \<equiv> path_join (path_join root ''dist'')"
  assumes zip: "package_windows_zip h root version s = (Inr (Some r), s1)"
    and cp: "r ''copied'' = Some (PyBool c)"
    and wix: "is_wix_installed h"
    and build: "msi_build h root s1 = (Inr (Inr bd), s2)"
    and find: "find_asset_with_ext bd version ''msi'' s2 = (Inr a, s3)"
    and cand: "lookup (st_fs s3) (path_join bd a) = Some m"
  shows "\<exists>mr s4.
           package_windows_msi h root version c s1 = (Inr mr, s4)
         \<and> msi_publish h root c bd a s3 = (Inr mr, s4)
         \<and> mr ''copied'' = Some (PyBool (c \<or> \<not> isfile (st_fs s3) (dist a)
                 \<or> fst (compare_files (compare_msi_files h) (path_join bd a) (dist a) s3) = Inr False))
         \<and> (c \<longrightarrow> lookup (st_fs s4) (dist a) = Some m)
         \<and> package_all_windows h root version s =
             (Inr (),
              print ''Packaging completed successfully.''
                (print_lines (display_package_results
                                ((default_results ''.msi'' ++ mr)(''built'' \<mapsto> PyBool True)))
                  (print_lines (display_package_results
                                  ((default_results ''.zip'' ++ r)(''built'' \<mapsto> PyBool True)))
                    (print_lines summary_banner s4))))"
proof -
  have bd: "bd = path_join root ''build''" by (rule msi_build_dir[OF build])
  have s3: "s3 = s2" and nm: "\<not> startswith a ''/''"
    using find_asset_shape[OF find] by simp_all
  let ?copy = "c \<or> \<not> isfile (st_fs s3) (dist a)
      \<or> fst (compare_files (compare_msi_files h) (path_join bd a) (dist a) s3) = Inr False"
  define mr where "mr = [''success'' \<mapsto> PyBool True, ''asset_file_name'' \<mapsto> PyStr a,
      ''existed'' \<mapsto> PyBool (isfile (st_fs s3) (dist a)), ''copied'' \<mapsto> PyBool ?copy]"
  define s4 where "s4 = (if ?copy
      then s3\<lparr>st_fs := write_file (dist a) m (remove_file (path_join bd a)
               (if isfile (st_fs s3) (dist a) then remove_file (dist a) (st_fs s3) else st_fs s3))\<rparr>
      else s3)"
  have pub: "msi_publish h root c bd a s3 = (Inr mr, s4)"
    unfolding mr_def s4_def dist_def bd
    by (rule msi_publish_run[OF nm cand[unfolded bd]])
  have msi: "package_windows_msi h root version c s1 = (Inr mr, s4)"
    using build find pub by (simp add: package_windows_msi_def bindM_def)
  have zs: "r ''success'' = Some (PyBool True)"
    using package_windows_zip_success[OF zip] by simp
  have ms: "mr ''success'' = Some (PyBool True)" by (simp add: mr_def)
  have zstep: "windows_zip_step h root version s =
      (Inr ((default_results ''.zip'' ++ r)(''built'' \<mapsto> PyBool True)), s1)"
    by (simp add: windows_zip_step_def bindM_def zip record_results_ok[of r, OF zs])
  have mstep: "windows_msi_step h root version c s1 =
      (Inr ((default_results ''.msi'' ++ mr)(''built'' \<mapsto> PyBool True)), s4)"
    using wix by (simp add: windows_msi_step_def bindM_def msi record_results_ok[of mr, OF ms])
  have all: "package_all_windows h root version s =
             (Inr (),
              print ''Packaging completed successfully.''
                (print_lines (display_package_results
                                ((default_results ''.msi'' ++ mr)(''built'' \<mapsto> PyBool True)))
                  (print_lines (display_package_results
                                  ((default_results ''.zip'' ++ r)(''built'' \<mapsto> PyBool True)))
                    (print_lines summary_banner s4))))"
  proof -
    have cpz: "(default_results ''.zip'' ++ r) ''copied'' = Some (PyBool c)"
      using cp by (simp add: map_add_def)
    show ?thesis
      using mstep
      by (cases c)
         (simp_all add: package_all_windows_def bindM_def zstep dict_item_def ret_def truthy_def cpz)
  qed
  have c1: "mr ''copied'' = Some (PyBool ?copy)" by (simp add: mr_def)
  have c2: "c \<longrightarrow> lookup (st_fs s4) (dist a) = Some m"
    by (simp add: s4_def lookup_write_file)
  from msi pub c1 c2 all show ?thesis by blast
qed


text \<open>
  The theorem on the sample Windows run: the zip is new, so it is copied, and the
  installer, although its bytes equal those of the published one, replaces it: the
  published installer then carries the time stamp 0 of the candidate, no longer 9.
\<close>

theorem zip_copy_forces_msi_witness:
  "is_wix_installed build_host
   \<and> (\<exists>r. package_windows_zip build_host ''/r'' ''1'' win_start = (Inr (Some r), win_after_zip)
          \<and> r ''copied'' = Some (PyBool True))
   \<and> msi_build build_host ''/r'' win_after_zip = (Inr (Inr ''/r/build''), win_after_build)
   \<and> find_asset_with_ext ''/r/build'' ''1'' ''msi'' win_after_build
       = (Inr ''ta-lib-1.msi'', win_after_build)
   \<and> lookup (st_fs win_after_build) ''/r/build/ta-lib-1.msi'' = Some (data ''msi'')
   \<and> lookup (st_fs win_after_build) ''/r/dist/ta-lib-1.msi'' = Some \<lparr>bytes = ''msi'', mtime = 9\<rparr>
   \<and> (\<exists>mr s4. package_windows_msi build_host ''/r'' ''1'' True win_after_zip = (Inr mr, s4)
          \<and> mr ''copied'' = Some (PyBool True)
          \<and> lookup (st_fs s4) ''/r/dist/ta-lib-1.msi'' = Some (data ''msi''))"
proof -
  have wix: "is_wix_installed build_host" by (simp add: build_host_def idle_host_def)
  have "case package_windows_zip build_host ''/r'' ''1'' win_start of
          (Inr (Some r), s1) \<Rightarrow> r ''copied'' = Some (PyBool True) \<and> s1 = win_after_zip
        | _ \<Rightarrow> False"
    by code_simp
  then obtain r where zip: "package_windows_zip build_host ''/r'' ''1'' win_start
        = (Inr (Some r), win_after_zip)"
    and cp: "r ''copied'' = Some (PyBool True)"
    by (auto split: prod.splits sum.splits option.splits)
  have "case msi_build build_host ''/r'' win_after_zip of
          (Inr (Inr bd), s2) \<Rightarrow> bd = ''/r/build'' \<and> s2 = win_after_build
        | _ \<Rightarrow> False"
    by code_simp
  then have build: "msi_build build_host ''/r'' win_after_zip
        = (Inr (Inr ''/r/build''), win_after_build)"
    by (auto split: prod.splits sum.splits)
  have find: "find_asset_with_ext ''/r/build'' ''1'' ''msi'' win_after_build
       = (Inr ''ta-lib-1.msi'', win_after_build)"
    by code_simp
  have cand: "lookup (st_fs win_after_build) (path_join ''/r/build'' ''ta-lib-1.msi'')
       = Some (data ''msi'')"
    by code_simp
  have old: "lookup (st_fs win_after_build) ''/r/dist/ta-lib-1.msi''
       = Some \<lparr>bytes = ''msi'', mtime = 9\<rparr>"
    by code_simp
  have p: "path_join ''/r/build'' ''ta-lib-1.msi'' = ''/r/build/ta-lib-1.msi''"
    "path_join (path_join ''/r'' ''dist'') ''ta-lib-1.msi'' = ''/r/dist/ta-lib-1.msi''"
    by (simp_all add: path_eval)
  from zip_copy_forces_msi[OF zip cp wix build find cand]
  have "\<exists>mr s4. package_windows_msi build_host ''/r'' ''1'' True win_after_zip = (Inr mr, s4)
          \<and> mr ''copied'' = Some (PyBool True)
          \<and> lookup (st_fs s4) ''/r/dist/ta-lib-1.msi'' = Some (data ''msi'')"
    unfolding p by auto
  with wix zip cp build find cand[unfolded p] old show ?thesis by blast
qed

section \<open>The version check\<close>

text \<open>
  C6.  The version is looked for in the whole path of the candidate, not in its file
  name.  With the repository in \<^verbatim>\<open>/r/2\<close> and the version \<open>2\<close>, the package
  \<^verbatim>\<open>ta-lib-1.deb\<close>, whose name does not contain the version, passes the check of
  \<^verbatim>\<open>package_deb\<close> and is published, and the installer \<^verbatim>\<open>ta-lib-1.msi\<close> passes
  \<^verbatim>\<open>find_asset_with_ext\<close>.  With the repository in \<^verbatim>\<open>/r\<close> the same package is refused.
\<close>

theorem version_in_path_accepted:
  "\<not> contains ''ta-lib-1.deb'' ''2''
   \<and> (case package_deb build_host ''/r/2'' ''2'' [] (state_of [(''/r/2/CMakeLists.txt'', data ''C'')]) of
        (Inr r, s') \<Rightarrow>
          r ''success'' = Some (PyBool True) \<and> r ''copied'' = Some (PyBool True)
          \<and> r ''asset_file_name'' = Some (PyStr ''ta-lib-1.deb'')
          \<and> lookup (st_fs s') ''/r/2/dist/ta-lib-1.deb'' = Some (data ''deb'')
          \<and> st_out s' = []
      | _ \<Rightarrow> False)
   \<and> find_asset_with_ext ''/r/2/build'' ''2'' ''msi''
        (state_of [(''/r/2/build/ta-lib-1.msi'', data ''msi'')])
      = (Inr ''ta-lib-1.msi'', state_of [(''/r/2/build/ta-lib-1.msi'', data ''msi'')])
   \<and> (case package_deb build_host ''/r'' ''2'' [] (state_of [(''/r/CMakeLists.txt'', data ''C'')]) of
        (Inr r, s') \<Rightarrow>
          r ''success'' = Some (PyBool False)
          \<and> lookup (st_fs s') ''/r/dist/ta-lib-1.deb'' = None
          \<and> st_out s' = [''Error: Expected version 2 in /r/build/ta-lib-1.deb'']
      | _ \<Rightarrow> False)"
  by code_simp

section \<open>A build that leaves no single package\<close>

lemma startswith_iff: "startswith s p \<longleftrightarrow> (\<exists>r. s = p @ r)"
  by (induction s p rule: startswith.induct) auto

lemma unchanged_below_refl: "unchanged_below d f f"
  by (simp add: unchanged_below_def)

lemma unchanged_below_trans:
  "unchanged_below d f g \<Longrightarrow> unchanged_below d g k \<Longrightarrow> unchanged_below d f k"
  by (simp add: unchanged_below_def)

lemma below_dist_not_build:
  "below (os_path_join root ''dist'') p \<Longrightarrow> \<not> below (os_path_join root ''build'') p"
  by (auto simp: below_def join_lit startswith_iff)

lemma force_delete_build_keeps_dist:
  "unchanged_below (os_path_join root ''dist'') f (force_delete (os_path_join root ''build'') f)"
  by (simp add: unchanged_below_def lookup_force_delete below_dist_not_build)

lemma run_tool_keeps:
  "tools_leave h d \<Longrightarrow> run_tool h cmd s = Some s' \<Longrightarrow> unchanged_below d (st_fs s) (st_fs s')"
  by (auto simp: tools_leave_def run_tool_def)

lemma run_tool_keeps':
  "tools_leave h d \<Longrightarrow> run_tool h cmd s = Some s' \<Longrightarrow> st_fs s = f \<Longrightarrow>
   unchanged_below d f (st_fs s')"
  using run_tool_keeps by blast

lemma do_cmake_reconfigure_keeps:
  assumes t: "tools_leave h (os_path_join root ''dist'')"
    and r: "do_cmake_reconfigure h root opts s = (Inr bd, s')"
  shows "unchanged_below (os_path_join root ''dist'') (st_fs s) (st_fs s')"
  using r
  by (auto simp: do_cmake_reconfigure_def Let_def bindM_def finally_chdir_def sys_exit_def
      os_makedirs_def print_def path_join_def
      split: if_splits prod.splits sum.splits option.splits
      dest!: run_tool_keeps'[OF t]
      intro: unchanged_below_trans[OF force_delete_build_keeps_dist])

lemma do_cmake_build_keeps:
  assumes t: "tools_leave h d" and r: "do_cmake_build h bd s = (Inr x, s')"
  shows "unchanged_below d (st_fs s) (st_fs s')"
  using r
  by (auto simp: do_cmake_build_def Let_def finally_chdir_def sys_exit_def
      split: option.splits dest!: run_tool_keeps'[OF t])

lemma do_cpack_build_keeps:
  assumes t: "tools_leave h d" and r: "do_cpack_build h bd s = (Inr x, s')"
  shows "unchanged_below d (st_fs s) (st_fs s')"
  using r
  by (auto simp: do_cpack_build_def Let_def finally_chdir_def sys_exit_def
      split: option.splits dest!: run_tool_keeps'[OF t])

lemma msi_build_keeps:
  assumes t: "tools_leave h (os_path_join root ''dist'')"
    and r: "msi_build h root s = (Inr (Inr bd), s')"
  shows "unchanged_below (os_path_join root ''dist'') (st_fs s) (st_fs s')"
proof -
  let ?d = "os_path_join root ''dist''"
  let ?s1 = "s\<lparr>st_fs := create_rtf_from_txt h (path_join root ''LICENSE'')
                (path_join root ''LICENSE.rtf'') (st_fs s)\<rparr>"
  have 0: "unchanged_below ?d (st_fs s) (st_fs ?s1)"
    using t by (simp add: tools_leave_def)
  from r obtain b sa sb x y where
    1: "do_cmake_reconfigure h root
          ''-G Ninja -DCPACK_GENERATOR=WIX -DBUILD_DEV_TOOLS=OFF -DCMAKE_BUILD_TYPE=Release'' ?s1
        = (Inr b, sa)"
    and 2: "do_cmake_build h b sa = (Inr x, sb)"
    and 3: "do_cpack_build h b sb = (Inr y, s')"
    by (auto simp: msi_build_def Let_def bindM_def ret_def print_def
        split: if_splits prod.splits sum.splits)
  show ?thesis
    using 0 do_cmake_reconfigure_keeps[OF t 1] do_cmake_build_keeps[OF t 2]
      do_cpack_build_keeps[OF t 3]
    by (blast intro: unchanged_below_trans)
qed

lemma path_exists_force_delete: "\<not> path_exists (force_delete p f) p"
  by (induction f) (auto simp: path_exists_def force_delete_def below_def)

lemma deb_build_keeps:
  assumes t: "tools_leave h (os_path_join root ''dist'')"
    and r: "deb_build h root s = (Inr (Inr bd), s')"
  shows "unchanged_below (os_path_join root ''dist'') (st_fs s) (st_fs s')"
  using r
  by (auto simp: deb_build_def Let_def bindM_def os_makedirs_def print_def
      split: if_splits prod.splits sum.splits option.splits
      dest!: run_tool_keeps'[OF t])
     (meson unchanged_below_trans force_delete_build_keeps_dist)

lemma deb_build_dir:
  "deb_build h root s = (Inr (Inr bd), s') \<Longrightarrow> bd = os_path_join root ''build''"
  by (auto simp: deb_build_def Let_def bindM_def os_makedirs_def print_def
      split: if_splits prod.splits sum.splits option.splits)

lemma find_asset_ambiguous:
  "length (glob_glob (st_fs s) (path_join bd ''*.msi'')) \<noteq> 1 \<Longrightarrow>
   find_asset_with_ext bd version ''msi'' s =
     (Inl (SystemExit 1),
      print (''Error: Expected one .msi file, found ''
             @ str_nat (length (glob_glob (st_fs s) (path_join bd ''*.msi'')))) s)"
  by (simp add: find_asset_with_ext_def Let_def sys_exit_def)

lemma deb_locate_ambiguous:
  "length (glob_glob (st_fs s) (os_path_join bd ''*.deb'')) \<noteq> 1 \<Longrightarrow>
   deb_locate bd version s =
     (Inr (Inl [''success'' \<mapsto> PyBool False]),
      print (''Error: Expected one .deb file, found ''
             @ str_nat (length (glob_glob (st_fs s) (os_path_join bd ''*.deb'')))) s)"
  by (simp add: deb_locate_def Let_def)

lemma package_windows_msi_ambiguous:
  assumes "msi_build h root s = (Inr (Inr bd), sb)"
    and "length (glob_glob (st_fs sb) (path_join bd ''*.msi'')) \<noteq> 1"
  shows "package_windows_msi h root version force s =
     (Inl (SystemExit 1),
      print (''Error: Expected one .msi file, found ''
             @ str_nat (length (glob_glob (st_fs sb) (path_join bd ''*.msi'')))) sb)"
  using assms by (simp add: package_windows_msi_def bindM_def find_asset_ambiguous)

lemma package_deb_ambiguous:
  assumes "is_debian_based h" "is_cmake_installed h"
    and "isfile (st_fs s) (os_path_join root ''CMakeLists.txt'')"
    and "deb_build h root (s\<lparr>st_fs := deb_purge (os_path_join root ''dist'') version (st_fs s)\<rparr>)
           = (Inr (Inr bd), sb)"
    and "length (glob_glob (st_fs sb) (os_path_join bd ''*.deb'')) \<noteq> 1"
  shows "package_deb h root version pwd s =
     (Inr [''success'' \<mapsto> PyBool False],
      print (''Error: Expected one .deb file, found ''
             @ str_nat (length (glob_glob (st_fs sb) (os_path_join bd ''*.deb'')))) sb)"
  using assms by (simp add: package_deb_def Let_def bindM_def ret_def deb_locate_ambiguous)


text \<open>
  C3, as the script has it.  The host's tools leave \<^verbatim>\<open>dist\<close> alone.  When the build of the
  installer leaves no or several \<^verbatim>\<open>*.msi\<close> in the build directory,
  \<^verbatim>\<open>package_windows_msi\<close> leaves with \<^verbatim>\<open>sys.exit(1)\<close> after "Error: Expected one .msi file,
  found n", nothing is published, and \<^verbatim>\<open>dist\<close> is as it was before the call.  When the
  build of the Debian package leaves no or several \<^verbatim>\<open>*.deb\<close>, \<^verbatim>\<open>package_deb\<close> prints the
  same diagnostic for \<^verbatim>\<open>.deb\<close> and returns without success, its caller leaves with
  \<^verbatim>\<open>sys.exit(1)\<close>, nothing is published, and \<^verbatim>\<open>dist\<close> is as the purge of the packages of
  other versions, done at the start of \<^verbatim>\<open>package_deb\<close>, left it.
\<close>

theorem ambiguous_build_output:
  fixes h :: host and root version :: string and s sb :: state
  defines "dist \<equiv> os_path_join root ''dist''"
  assumes tools: "tools_leave h dist"
  shows "(msi_build h root s = (Inr (Inr bd), sb)
          \<and> length (glob_glob (st_fs sb) (path_join bd ''*.msi'')) \<noteq> 1 \<longrightarrow>
            package_windows_msi h root version force s =
              (Inl (SystemExit 1),
               print (''Error: Expected one .msi file, found ''
                      @ str_nat (length (glob_glob (st_fs sb) (path_join bd ''*.msi'')))) sb)
            \<and> unchanged_below dist (st_fs s) (st_fs sb))
       \<and> (is_debian_based h \<and> is_cmake_installed h
          \<and> isfile (st_fs s) (os_path_join root ''CMakeLists.txt'')
          \<and> deb_build h root (s\<lparr>st_fs := deb_purge dist version (st_fs s)\<rparr>) = (Inr (Inr bd), sb)
          \<and> length (glob_glob (st_fs sb) (os_path_join bd ''*.deb'')) \<noteq> 1 \<longrightarrow>
            package_deb h root version pwd s =
              (Inr [''success'' \<mapsto> PyBool False],
               print (''Error: Expected one .deb file, found ''
                      @ str_nat (length (glob_glob (st_fs sb) (os_path_join bd ''*.deb'')))) sb)
            \<and> linux_deb_step h root version pwd s =
              (Inl (SystemExit 1),
               print ''Error: Packaging dist/.deb failed.''
                 (print (''Error: Expected one .deb file, found ''
                         @ str_nat (length (glob_glob (st_fs sb) (os_path_join bd ''*.deb'')))) sb))
            \<and> unchanged_below dist (deb_purge dist version (st_fs s)) (st_fs sb))"
proof (intro conjI impI; (elim conjE)?)
  assume b: "msi_build h root s = (Inr (Inr bd), sb)"
    and n: "length (glob_glob (st_fs sb) (path_join bd ''*.msi'')) \<noteq> 1"
  show "package_windows_msi h root version force s =
              (Inl (SystemExit 1),
               print (''Error: Expected one .msi file, found ''
                      @ str_nat (length (glob_glob (st_fs sb) (path_join bd ''*.msi'')))) sb)"
    by (rule package_windows_msi_ambiguous[OF b n])
  show "unchanged_below dist (st_fs s) (st_fs sb)"
    unfolding dist_def by (rule msi_build_keeps[OF tools[unfolded dist_def] b])
next
  assume d: "is_debian_based h" and c: "is_cmake_installed h"
    and l: "isfile (st_fs s) (os_path_join root ''CMakeLists.txt'')"
    and b: "deb_build h root (s\<lparr>st_fs := deb_purge dist version (st_fs s)\<rparr>) = (Inr (Inr bd), sb)"
    and n: "length (glob_glob (st_fs sb) (os_path_join bd ''*.deb'')) \<noteq> 1"
  show p: "package_deb h root version pwd s =
              (Inr [''success'' \<mapsto> PyBool False],
               print (''Error: Expected one .deb file, found ''
                      @ str_nat (length (glob_glob (st_fs sb) (os_path_join bd ''*.deb'')))) sb)"
    by (rule package_deb_ambiguous[OF d c l b[unfolded dist_def] n])
  show "linux_deb_step h root version pwd s =
              (Inl (SystemExit 1),
               print ''Error: Packaging dist/.deb failed.''
                 (print (''Error: Expected one .deb file, found ''
                         @ str_nat (length (glob_glob (st_fs sb) (os_path_join bd ''*.deb'')))) sb))"
    using d record_results_failed[of "''.deb''" "''.''"]
    by (simp add: linux_deb_step_def bindM_def p)
  show "unchanged_below dist (deb_purge dist version (st_fs s)) (st_fs sb)"
    using deb_build_keeps[OF tools[unfolded dist_def] b[unfolded dist_def]]
    unfolding dist_def by simp
qed

lemma idle_host_tools_leave: "tools_leave idle_host d"
  by (simp add: tools_leave_def idle_host_sel unchanged_below_def)

lemma stale_deb_build:
  "deb_build idle_host ''/r''
     ((state_of [(''/r/CMakeLists.txt'', data ''C''), (''/r/dist/ta-lib-0.deb'', data ''old'')])
        \<lparr>st_fs := deb_purge (os_path_join ''/r'' ''dist'') ''1''
           (st_fs (state_of [(''/r/CMakeLists.txt'', data ''C''),
                             (''/r/dist/ta-lib-0.deb'', data ''old'')]))\<rparr>)
   = (Inr (Inr ''/r/build''),
      \<lparr>st_fs = [(''/r/CMakeLists.txt'', data ''C'')], st_cwd = ''/r/build'', st_out = [],
       st_now = 1\<rparr>)"
proof -
  have "case deb_build idle_host ''/r''
     ((state_of [(''/r/CMakeLists.txt'', data ''C''), (''/r/dist/ta-lib-0.deb'', data ''old'')])
        \<lparr>st_fs := deb_purge (os_path_join ''/r'' ''dist'') ''1''
           (st_fs (state_of [(''/r/CMakeLists.txt'', data ''C''),
                             (''/r/dist/ta-lib-0.deb'', data ''old'')]))\<rparr>) of
          (Inr (Inr bd), sb) \<Rightarrow>
            bd = ''/r/build''
            \<and> sb = \<lparr>st_fs = [(''/r/CMakeLists.txt'', data ''C'')], st_cwd = ''/r/build'',
                     st_out = [], st_now = 1\<rparr>
        | _ \<Rightarrow> False"
    by code_simp
  then show ?thesis by (auto split: prod.splits sum.splits)
qed

text \<open>
  The theorem on the idle host, whose CPack writes nothing: the Debian packaging fails
  on zero packages, and \<^verbatim>\<open>dist\<close> is as the purge left it.
\<close>

theorem ambiguous_build_output_witness:
  "tools_leave idle_host (os_path_join ''/r'' ''dist'')
   \<and> is_debian_based idle_host \<and> is_cmake_installed idle_host
   \<and> isfile (st_fs (state_of [(''/r/CMakeLists.txt'', data ''C''),
                               (''/r/dist/ta-lib-0.deb'', data ''old'')]))
        (os_path_join ''/r'' ''CMakeLists.txt'')
   \<and> length (glob_glob [(''/r/CMakeLists.txt'', data ''C'')] (os_path_join ''/r/build'' ''*.deb'')) \<noteq> 1
   \<and> package_deb idle_host ''/r'' ''1'' []
        (state_of [(''/r/CMakeLists.txt'', data ''C''), (''/r/dist/ta-lib-0.deb'', data ''old'')])
      = (Inr [''success'' \<mapsto> PyBool False],
         \<lparr>st_fs = [(''/r/CMakeLists.txt'', data ''C'')], st_cwd = ''/r/build'',
          st_out = [''Error: Expected one .deb file, found 0''], st_now = 1\<rparr>)
   \<and> unchanged_below (os_path_join ''/r'' ''dist'')
        (deb_purge (os_path_join ''/r'' ''dist'') ''1''
           [(''/r/CMakeLists.txt'', data ''C''), (''/r/dist/ta-lib-0.deb'', data ''old'')])
        [(''/r/CMakeLists.txt'', data ''C'')]"
proof -
  let ?s = "state_of [(''/r/CMakeLists.txt'', data ''C''), (''/r/dist/ta-lib-0.deb'', data ''old'')]"
  let ?sb = "\<lparr>st_fs = [(''/r/CMakeLists.txt'', data ''C'')], st_cwd = ''/r/build'', st_out = [],
       st_now = 1\<rparr>"
  have d: "is_debian_based idle_host" and c: "is_cmake_installed idle_host"
    by (simp_all add: idle_host_sel)
  have l: "isfile (st_fs ?s) (os_path_join ''/r'' ''CMakeLists.txt'')" by code_simp
  have n: "length (glob_glob (st_fs ?sb) (os_path_join ''/r/build'' ''*.deb'')) \<noteq> 1"
    by code_simp
  have g: "glob_glob [(''/r/CMakeLists.txt'', data ''C'')] (os_path_join ''/r/build'' ''*.deb'') = []"
    by code_simp
  have m: "str_nat 0 = ''0''" by code_simp
  note T = ambiguous_build_output[OF idle_host_tools_leave, of "''/r''" ?s "''/r/build''" ?sb "''1''",
      THEN conjunct2, rule_format, OF conjI[OF d conjI[OF c conjI[OF l conjI[OF stale_deb_build n]]]]]
  show ?thesis
    using T[of "[]"] idle_host_tools_leave d c l n
    by (simp add: g m print_def state_of_sel)
qed

text \<open>
  C3 as stated fails on the Debian package: a package of another version is published,
  the build leaves no package at all, and the failed call has deleted the published one.
\<close>

theorem ambiguous_build_output_counterexample:
  "lookup (st_fs (state_of [(''/r/CMakeLists.txt'', data ''C''),
                            (''/r/dist/ta-lib-0.deb'', data ''old'')])) ''/r/dist/ta-lib-0.deb''
     = Some (data ''old'')
   \<and> package_deb idle_host ''/r'' ''1'' []
        (state_of [(''/r/CMakeLists.txt'', data ''C''), (''/r/dist/ta-lib-0.deb'', data ''old'')])
      = (Inr [''success'' \<mapsto> PyBool False],
         \<lparr>st_fs = [(''/r/CMakeLists.txt'', data ''C'')], st_cwd = ''/r/build'',
          st_out = [''Error: Expected one .deb file, found 0''], st_now = 1\<rparr>)
   \<and> lookup [(''/r/CMakeLists.txt'', data ''C'')] ''/r/dist/ta-lib-0.deb'' = None"
proof -
  let ?s = "state_of [(''/r/CMakeLists.txt'', data ''C''), (''/r/dist/ta-lib-0.deb'', data ''old'')]"
  let ?sb = "\<lparr>st_fs = [(''/r/CMakeLists.txt'', data ''C'')], st_cwd = ''/r/build'', st_out = [],
       st_now = 1\<rparr>"
  have d: "is_debian_based idle_host" and c: "is_cmake_installed idle_host"
    by (simp_all add: idle_host_sel)
  have l: "isfile (st_fs ?s) (os_path_join ''/r'' ''CMakeLists.txt'')" by code_simp
  have n: "length (glob_glob (st_fs ?sb) (os_path_join ''/r/build'' ''*.deb'')) \<noteq> 1"
    by code_simp
  have g: "glob_glob [(''/r/CMakeLists.txt'', data ''C'')] (os_path_join ''/r/build'' ''*.deb'') = []"
    by code_simp
  have m: "str_nat 0 = ''0''" by code_simp
  have old: "lookup (st_fs ?s) ''/r/dist/ta-lib-0.deb'' = Some (data ''old'')" by code_simp
  have gone: "lookup [(''/r/CMakeLists.txt'', data ''C'')] ''/r/dist/ta-lib-0.deb'' = None"
    by code_simp
  show ?thesis
    using package_deb_ambiguous[OF d c l stale_deb_build n, of "[]"] old gone
    by (simp add: g m print_def)
qed

section \<open>The purge of other versions\<close>








































end
